theory Spec2Isabelle
  imports Complex_Main
begin

section \<open>Numbers\<close>

text \<open>
  JavaScript numbers are modelled as mathematical reals: every arithmetic operation of
  the source is the exact operation on \<open>real\<close>, except in \<open>Projectile.update\<close>, whose
  running sum is rounded as IEEE 754 doubles are (see \<open>to_double\<close>). The one non-finite
  value the source stores on purpose, \<open>Infinity\<close> for an unbounded magazine, is a
  constructor of its own.
\<close>

datatype jsnum = Num real | Infinity

text \<open>\<open>a <= 0\<close> on a possibly infinite number.\<close>

fun jsnum_le_zero :: "jsnum \<Rightarrow> bool" where
  "jsnum_le_zero (Num a) = (a \<le> 0)"
| "jsnum_le_zero Infinity = False"

text \<open>\<open>Math.round\<close>: the nearest integer, halves towards plus infinity.\<close>

definition Math_round :: "real \<Rightarrow> real" where
  "Math_round v = of_int \<lfloor>v + 1 / 2\<rfloor>"

text \<open>\<open>Math.sign\<close>.\<close>

definition Math_sign :: "real \<Rightarrow> real" where
  "Math_sign v = (if v > 0 then 1 else if v < 0 then - 1 else 0)"

text \<open>math-utils.js: \<open>clamp(value, min, max) = Math.max(min, Math.min(value, max))\<close>.\<close>

definition clamp :: "real \<Rightarrow> real \<Rightarrow> real \<Rightarrow> real" where
  "clamp v lo hi = max lo (min v hi)"

section \<open>Vector3\<close>

datatype Vector3 = Vector3 (vx: real) (vy: real) (vz: real)

definition Vector3_ZERO :: Vector3 where
  "Vector3_ZERO = Vector3 0 0 0"

definition Vector3_add :: "Vector3 \<Rightarrow> Vector3 \<Rightarrow> Vector3" where
  "Vector3_add a b = Vector3 (vx a + vx b) (vy a + vy b) (vz a + vz b)"

definition Vector3_subtract :: "Vector3 \<Rightarrow> Vector3 \<Rightarrow> Vector3" where
  "Vector3_subtract a b = Vector3 (vx a - vx b) (vy a - vy b) (vz a - vz b)"

definition Vector3_multiplyScalar :: "Vector3 \<Rightarrow> real \<Rightarrow> Vector3" where
  "Vector3_multiplyScalar a s = Vector3 (vx a * s) (vy a * s) (vz a * s)"

definition Vector3_divideScalar :: "Vector3 \<Rightarrow> real \<Rightarrow> Vector3" where
  "Vector3_divideScalar a s =
     (if s \<noteq> 0 then Vector3 (vx a / s) (vy a / s) (vz a / s) else Vector3 0 0 0)"

definition Vector3_magnitudeSq :: "Vector3 \<Rightarrow> real" where
  "Vector3_magnitudeSq a = vx a * vx a + vy a * vy a + vz a * vz a"

definition Vector3_magnitude :: "Vector3 \<Rightarrow> real" where
  "Vector3_magnitude a = sqrt (vx a * vx a + vy a * vy a + vz a * vz a)"


definition Vector3_distanceToSq :: "Vector3 \<Rightarrow> Vector3 \<Rightarrow> real" where
  "Vector3_distanceToSq a b =
     (let dx = vx a - vx b; dy = vy a - vy b; dz = vz a - vz b
      in dx * dx + dy * dy + dz * dz)"


text \<open>An axis-aligned box \<open>{min, max}\<close>.\<close>

datatype AABB = AABB (bmin: Vector3) (bmax: Vector3)

section \<open>Constants\<close>

definition DAMAGE_MULTIPLIER_HEAD :: real where "DAMAGE_MULTIPLIER_HEAD = 3.0"
definition DAMAGE_MULTIPLIER_TORSO :: real where "DAMAGE_MULTIPLIER_TORSO = 1.0"
definition DAMAGE_MULTIPLIER_ARMS :: real where "DAMAGE_MULTIPLIER_ARMS = 0.8"
definition DAMAGE_MULTIPLIER_LEGS :: real where "DAMAGE_MULTIPLIER_LEGS = 0.6"
definition DAMAGE_MULTIPLIER_DEFAULT :: real where "DAMAGE_MULTIPLIER_DEFAULT = 1.0"

definition PLAYER_HEIGHT :: real where "PLAYER_HEIGHT = 1.8"
definition PLAYER_WIDTH :: real where "PLAYER_WIDTH = 0.8"
definition PLAYER_DEPTH :: real where "PLAYER_DEPTH = 0.8"

definition GRAVITY :: real where "GRAVITY = 20.0"
definition RESPAWN_DELAY :: real where "RESPAWN_DELAY = 3.0"
definition PLAYER_EYE_HEIGHT :: real where "PLAYER_EYE_HEIGHT = 1.6"
definition SERVER_TICK_RATE :: real where "SERVER_TICK_RATE = 30"
definition SERVER_TICK_INTERVAL_MS :: real where
  "SERVER_TICK_INTERVAL_MS = 1000 / SERVER_TICK_RATE"

section \<open>Weapon\<close>

text \<open>
  weapon.js. The back-reference \<open>owner\<close> is not stored: the operations that read the
  owner take its id and position as arguments. \<open>Date.now()\<close> is the argument \<open>now\<close>.
\<close>

record Weapon =
  weapon_damage :: real
  fireRate :: real
  weapon_range :: real
  projectileSpeed :: real
  ammo :: jsnum
  maxAmmo :: jsnum
  reloadTime :: real
  fireInterval :: real
  lastFireTime :: real
  isReloading :: bool
  reloadStartTime :: real

definition canFire :: "real \<Rightarrow> Weapon \<Rightarrow> bool" where
  "canFire now w =
     (if isReloading w then False
      else if jsnum_le_zero (ammo w) \<and> maxAmmo w \<noteq> Infinity then False
      else if now - lastFireTime w < fireInterval w then False
      else True)"

text \<open>
  The state of the magazine every weapon of the source is in: the ammo is \<open>Infinity\<close>
  exactly when \<open>maxAmmo\<close> is.
\<close>

definition ammo_consistent :: "Weapon \<Rightarrow> bool" where
  "ammo_consistent w = ((ammo w = Infinity) = (maxAmmo w = Infinity))"

section \<open>GameObject and Player\<close>

record GameObject =
  obj_id :: string
  position :: Vector3
  velocity :: Vector3

record Player = GameObject +
  health :: real
  maxHealth :: real
  name :: string
  score :: real
  currentWeapon :: "Weapon option"
  isAlive :: bool

text \<open>\<open>String.prototype.toLowerCase\<close> on ASCII letters.\<close>

definition toLowerCase_char :: "char \<Rightarrow> char" where
  "toLowerCase_char c =
     (case map_of (zip ''ABCDEFGHIJKLMNOPQRSTUVWXYZ'' ''abcdefghijklmnopqrstuvwxyz'') c of
        Some l \<Rightarrow> l
      | None \<Rightarrow> c)"

definition toLowerCase :: "string \<Rightarrow> string" where
  "toLowerCase s = map toLowerCase_char s"

text \<open>
  The \<open>switch (hitboxKey?.toLowerCase())\<close> of \<open>Player.takeDamage\<close>. \<open>None\<close> is a key
  that is \<open>null\<close>, for which the optional chain gives \<open>undefined\<close> and the default case.
\<close>

definition damage_multiplier :: "string option \<Rightarrow> real" where
  "damage_multiplier hitboxKey =
     (case map_option toLowerCase hitboxKey of
        None \<Rightarrow> DAMAGE_MULTIPLIER_DEFAULT
      | Some k \<Rightarrow>
          if k = ''head'' then DAMAGE_MULTIPLIER_HEAD
          else if k = ''torso'' then DAMAGE_MULTIPLIER_TORSO
          else if k = ''arms'' then DAMAGE_MULTIPLIER_ARMS
          else if k = ''legs'' then DAMAGE_MULTIPLIER_LEGS
          else DAMAGE_MULTIPLIER_DEFAULT)"

text \<open>
  \<open>Player.takeDamage(baseAmount, hitboxKey = 'default')\<close>, player.js lines 283-308.
  The first argument is the \<open>onDeath\<close> method of the object: \<open>None\<close> for a plain
  \<open>Player\<close>, where \<open>typeof this.onDeath === 'function'\<close> is false.
\<close>

definition takeDamage ::
  "('a Player_scheme \<Rightarrow> 'a Player_scheme) option \<Rightarrow> real \<Rightarrow> string option
     \<Rightarrow> 'a Player_scheme \<Rightarrow> 'a Player_scheme" where
  "takeDamage onDeath baseAmount hitboxKey p =
     (if \<not> isAlive p \<or> baseAmount \<le> 0 then p
      else
        let multiplier = damage_multiplier hitboxKey;
            finalAmount = Math_round (baseAmount * multiplier);
            p1 = p\<lparr>health := clamp (health p - finalAmount) 0 (maxHealth p)\<rparr>
        in if health p1 \<le> 0 \<and> isAlive p1
           then (let p2 = p1\<lparr>isAlive := False\<rparr>
                 in case onDeath of Some f \<Rightarrow> f p2 | None \<Rightarrow> p2)
           else p1)"

text \<open>\<open>Player.heal(amount)\<close>, player.js lines 315-323.\<close>

definition heal :: "real \<Rightarrow> 'a Player_scheme \<Rightarrow> 'a Player_scheme" where
  "heal amount p =
     (if \<not> isAlive p \<or> amount \<le> 0 then p
      else p\<lparr>health := clamp (health p + amount) 0 (maxHealth p)\<rparr>)"

text \<open>The \<open>Player\<close> constructor: full health, score 0, no weapon, alive.\<close>

definition new_Player :: "string \<Rightarrow> string \<Rightarrow> Vector3 \<Rightarrow> Vector3 \<Rightarrow> real \<Rightarrow> Player" where
  "new_Player i n pos vel mh =
     \<lparr>obj_id = i, position = pos, velocity = vel, health = mh, maxHealth = mh, name = n,
      score = 0, currentWeapon = None, isAlive = True\<rparr>"

text \<open>A call of one of the two health-changing methods, and a sequence of such calls.\<close>

datatype health_call = TakeDamage real "string option" | Heal real

fun apply_call ::
  "('a Player_scheme \<Rightarrow> 'a Player_scheme) option \<Rightarrow> 'a Player_scheme \<Rightarrow> health_call
     \<Rightarrow> 'a Player_scheme" where
  "apply_call onDeath p (TakeDamage a k) = takeDamage onDeath a k p"
| "apply_call onDeath p (Heal a) = heal a p"

definition run_calls ::
  "('a Player_scheme \<Rightarrow> 'a Player_scheme) option \<Rightarrow> 'a Player_scheme \<Rightarrow> health_call list
     \<Rightarrow> 'a Player_scheme" where
  "run_calls onDeath p cs = foldl (apply_call onDeath) p cs"

text \<open>An \<open>onDeath\<close> method that leaves \<open>health\<close> and \<open>maxHealth\<close> alone.\<close>

definition keeps_health :: "('a Player_scheme \<Rightarrow> 'a Player_scheme) option \<Rightarrow> bool" where
  "keeps_health onDeath =
     (case onDeath of
        None \<Rightarrow> True
      | Some f \<Rightarrow> \<forall>q. health (f q) = health q \<and> maxHealth (f q) = maxHealth q)"

section \<open>Pistol\<close>

definition PISTOL_DAMAGE :: real where "PISTOL_DAMAGE = 15"
definition PISTOL_FIRE_RATE :: real where "PISTOL_FIRE_RATE = 5"
definition PISTOL_RANGE :: real where "PISTOL_RANGE = 100"
definition PISTOL_PROJECTILE_SPEED :: real where "PISTOL_PROJECTILE_SPEED = 60"
definition PISTOL_AMMO :: jsnum where "PISTOL_AMMO = Infinity"
definition PISTOL_RELOAD_TIME :: real where "PISTOL_RELOAD_TIME = 1.5"
definition PISTOL_PROJECTILE_SIZE :: real where "PISTOL_PROJECTILE_SIZE = 0.2"

text \<open>The \<open>Pistol\<close> constructor (pistol.js), after the field initialisers of \<open>Weapon\<close>.\<close>

definition new_Pistol :: Weapon where
  "new_Pistol =
     \<lparr>weapon_damage = PISTOL_DAMAGE, fireRate = PISTOL_FIRE_RATE, weapon_range = PISTOL_RANGE,
      projectileSpeed = PISTOL_PROJECTILE_SPEED, ammo = PISTOL_AMMO, maxAmmo = PISTOL_AMMO,
      reloadTime = PISTOL_RELOAD_TIME, fireInterval = 1000 / PISTOL_FIRE_RATE,
      lastFireTime = 0, isReloading = False, reloadStartTime = 0\<rparr>"

section \<open>Projectile\<close>

record Projectile = GameObject +
  ownerId :: string
  damage :: real
  speed :: real
  proj_range :: real
  origin :: Vector3
  distanceTraveled :: real
  markForRemoval :: bool
  width :: real
  height :: real
  depth :: real
  projectileType :: string

text \<open>The \<open>Projectile\<close> constructor: position and origin at the firing point.\<close>

definition new_Projectile ::
  "string \<Rightarrow> Vector3 \<Rightarrow> Vector3 \<Rightarrow> real \<Rightarrow> real \<Rightarrow> real \<Rightarrow> string \<Rightarrow> string \<Rightarrow> Projectile" where
  "new_Projectile owner orig vel dmg spd rng ptype i =
     \<lparr>obj_id = i, position = orig, velocity = vel, ownerId = owner, damage = dmg, speed = spd,
      proj_range = rng, origin = orig, distanceTraveled = 0, markForRemoval = False,
      width = 0.1, height = 0.1, depth = 0.1, projectileType = ptype\<rparr>"

text \<open>
  The distance counter of \<open>Projectile.update\<close> is a running sum of IEEE 754 doubles, and
  whether it has reached the range after a given call depends on how each sum was
  rounded. Its arithmetic is therefore modelled with the rounding of binary64, round to
  nearest with ties to even: \<open>to_double\<close> takes the exact result of an operation to the
  double that holds it. The quantum is the spacing of the doubles around the value: 52
  binary places below its leading bit, and never below \<open>2^-1074\<close>, the spacing of the
  subnormal numbers. Results are taken to be finite (the exponent has no upper limit here),
  and there is no NaN.
\<close>

definition pow2 :: "int \<Rightarrow> real" where
  "pow2 e = (if 0 \<le> e then 2 ^ nat e else 1 / 2 ^ nat (- e))"

definition round_half_even :: "real \<Rightarrow> int" where
  "round_half_even r =
     (let f = \<lfloor>r\<rfloor>; d = r - of_int f
      in if d < 1 / 2 then f else if d > 1 / 2 then f + 1 else if even f then f else f + 1)"

definition double_quantum :: "real \<Rightarrow> real" where
  "double_quantum v = pow2 (max (\<lfloor>log 2 \<bar>v\<bar>\<rfloor> - 52) (- 1074))"

definition to_double :: "real \<Rightarrow> real" where
  "to_double v =
     (if v = 0 then 0 else of_int (round_half_even (v / double_quantum v)) * double_quantum v)"

text \<open>\<open>Vector3.magnitude()\<close> as the doubles compute it: products, sums and root rounded.\<close>

definition Vector3_magnitude_double :: "Vector3 \<Rightarrow> real" where
  "Vector3_magnitude_double a =
     to_double (sqrt (to_double (to_double (to_double (vx a * vx a) + to_double (vy a * vy a))
                                 + to_double (vz a * vz a))))"

text \<open>
  \<open>Projectile.update(deltaTime)\<close>, projectile.js lines 76-89, with the product and the
  \<open>+=\<close> rounded as doubles.
\<close>

definition Projectile_update :: "real \<Rightarrow> Projectile \<Rightarrow> Projectile" where
  "Projectile_update deltaTime p =
     (let distanceThisFrame = to_double (Vector3_magnitude_double (velocity p) * deltaTime);
          p1 = p\<lparr>distanceTraveled := to_double (distanceTraveled p + distanceThisFrame)\<rparr>
      in if distanceTraveled p1 \<ge> proj_range p1 then p1\<lparr>markForRemoval := True\<rparr> else p1)"

text \<open>
  The product \<open>speed * deltaTime\<close> and the first \<open>K\<close> sums from \<open>d0\<close> are doubles as they
  stand, so that no rounding takes place in the first \<open>K\<close> calls.
\<close>

definition sums_exact :: "real \<Rightarrow> real \<Rightarrow> nat \<Rightarrow> bool" where
  "sums_exact d0 c K =
     (to_double c = c \<and> list_all (\<lambda>k. to_double (d0 + real k * c) = d0 + real k * c) [0..<Suc K])"

text \<open>\<open>Projectile.getBoundingBox(pos)\<close>: a cube around the centre, grown by 0.001.\<close>

definition Projectile_getBoundingBox :: "Projectile \<Rightarrow> Vector3 \<Rightarrow> AABB" where
  "Projectile_getBoundingBox p pos =
     (let halfSize = width p / 2; expansion = 0.001
      in AABB (Vector3 (vx pos - halfSize - expansion) (vy pos - halfSize - expansion)
                       (vz pos - halfSize - expansion))
              (Vector3 (vx pos + halfSize + expansion) (vy pos + halfSize + expansion)
                       (vz pos + halfSize + expansion)))"

section \<open>CollisionSystem: world bounds\<close>

text \<open>
  The dimensions \<open>resolveWorldBoundsCollision\<close> reads off its duck-typed entity:
  \<open>entity.width\<close>, \<open>entity.height\<close>, \<open>entity.depth\<close>, each \<open>None\<close> when the property is
  undefined.
\<close>

record EntityDims =
  dim_width :: "real option"
  dim_height :: "real option"
  dim_depth :: "real option"

text \<open>\<open>a || b\<close> on numbers: \<open>undefined\<close> and \<open>0\<close> are falsy.\<close>

fun js_or :: "real option \<Rightarrow> real \<Rightarrow> real" where
  "js_or None d = d"
| "js_or (Some v) d = (if v = 0 then d else v)"

definition Projectile_dims :: "Projectile \<Rightarrow> EntityDims" where
  "Projectile_dims p =
     \<lparr>dim_width = Some (width p), dim_height = Some (height p), dim_depth = Some (depth p)\<rparr>"

definition Player_dims :: EntityDims where
  "Player_dims =
     \<lparr>dim_width = Some PLAYER_WIDTH, dim_height = Some PLAYER_HEIGHT,
      dim_depth = Some PLAYER_DEPTH\<rparr>"

definition entityHalfWidth :: "EntityDims \<Rightarrow> real" where
  "entityHalfWidth d = js_or (dim_width d) 0.1 / 2"

definition entityHalfDepth :: "EntityDims \<Rightarrow> real" where
  "entityHalfDepth d = js_or (dim_depth d) (js_or (dim_width d) 0.1) / 2"

definition entityHeight :: "EntityDims \<Rightarrow> real" where
  "entityHeight d = js_or (dim_height d) 0.1"

text \<open>The box \<open>potentialAABB\<close> of collision-system.js lines 48-59: \<open>y\<close> is the base.\<close>

definition potentialAABB :: "EntityDims \<Rightarrow> Vector3 \<Rightarrow> AABB" where
  "potentialAABB d pos =
     AABB (Vector3 (vx pos - entityHalfWidth d) (vy pos) (vz pos - entityHalfDepth d))
          (Vector3 (vx pos + entityHalfWidth d) (vy pos + entityHeight d)
                   (vz pos + entityHalfDepth d))"

text \<open>\<open>checkWorldBounds(aabb, mapBounds)\<close>: true when the box sticks out of the map.\<close>

definition checkWorldBounds :: "AABB \<Rightarrow> AABB \<Rightarrow> bool" where
  "checkWorldBounds aabb mapBounds =
     (vx (bmin aabb) < vx (bmin mapBounds) \<or> vx (bmax aabb) > vx (bmax mapBounds) \<or>
      vy (bmin aabb) < vy (bmin mapBounds) \<or> vy (bmax aabb) > vy (bmax mapBounds) \<or>
      vz (bmin aabb) < vz (bmin mapBounds) \<or> vz (bmax aabb) > vz (bmax mapBounds))"

text \<open>
  One of the three \<open>if / else if\<close> blocks of \<open>resolveWorldBoundsCollision\<close>: the box
  sides \<open>aMin\<close>, \<open>aMax\<close> on the axis, the map's sides, the coordinate to take at either
  wall, and the current coordinate and velocity component. It returns the final
  coordinate and the velocity component.
\<close>

definition resolve_axis ::
  "real \<Rightarrow> real \<Rightarrow> real \<Rightarrow> real \<Rightarrow> real \<Rightarrow> real \<Rightarrow> real \<Rightarrow> real \<Rightarrow> real \<times> real" where
  "resolve_axis aMin aMax boundsMin boundsMax atMin atMax pos vel =
     (if aMin < boundsMin then (atMin, if vel < 0 then 0 else vel)
      else if aMax > boundsMax then (atMax, if vel > 0 then 0 else vel)
      else (pos, vel))"

text \<open>
  \<open>resolveWorldBoundsCollision(entity, potentialPosition, mapBounds)\<close>,
  collision-system.js lines 42-108. It returns the final position and the entity, whose
  velocity the source changes in place.
\<close>

definition resolveWorldBoundsCollision ::
  "EntityDims \<Rightarrow> 'a GameObject_scheme \<Rightarrow> Vector3 \<Rightarrow> AABB
     \<Rightarrow> Vector3 \<times> 'a GameObject_scheme" where
  "resolveWorldBoundsCollision d entity potentialPosition mapBounds =
     (let hw = entityHalfWidth d; hd = entityHalfDepth d; eh = entityHeight d;
          box = potentialAABB d potentialPosition;
          v = velocity entity;
          (fx, velx) = resolve_axis (vx (bmin box)) (vx (bmax box))
                         (vx (bmin mapBounds)) (vx (bmax mapBounds))
                         (vx (bmin mapBounds) + hw) (vx (bmax mapBounds) - hw)
                         (vx potentialPosition) (vx v);
          (fy, vely) = resolve_axis (vy (bmin box)) (vy (bmax box))
                         (vy (bmin mapBounds)) (vy (bmax mapBounds))
                         (vy (bmin mapBounds)) (vy (bmax mapBounds) - eh)
                         (vy potentialPosition) (vy v);
          (fz, velz) = resolve_axis (vz (bmin box)) (vz (bmax box))
                         (vz (bmin mapBounds)) (vz (bmax mapBounds))
                         (vz (bmin mapBounds) + hd) (vz (bmax mapBounds) - hd)
                         (vz potentialPosition) (vz v)
      in (Vector3 fx fy fz, entity\<lparr>velocity := Vector3 velx vely velz\<rparr>))"

text \<open>The map is at least as large as the entity's box on every axis.\<close>

definition bounds_fit :: "EntityDims \<Rightarrow> AABB \<Rightarrow> bool" where
  "bounds_fit d mapBounds =
     (vx (bmin mapBounds) + entityHalfWidth d \<le> vx (bmax mapBounds) - entityHalfWidth d \<and>
      vy (bmin mapBounds) \<le> vy (bmax mapBounds) - entityHeight d \<and>
      vz (bmin mapBounds) + entityHalfDepth d \<le> vz (bmax mapBounds) - entityHalfDepth d)"

text \<open>The default map of map.js: 100 by 80, from height 0 to 25.\<close>

definition defaultMapBounds :: AABB where
  "defaultMapBounds = AABB (Vector3 (- 100 / 2) 0 (- 80 / 2)) (Vector3 (100 / 2) 25 (80 / 2))"

section \<open>CollisionSystem: AABB overlap and the ray test\<close>

text \<open>\<open>checkAABBOverlap(boxA, boxB)\<close>: boxes that only touch do not overlap.\<close>

definition checkAABBOverlap :: "AABB \<Rightarrow> AABB \<Rightarrow> bool" where
  "checkAABBOverlap boxA boxB =
     (let noOverlap =
            (vx (bmax boxA) \<le> vx (bmin boxB) \<or> vx (bmin boxA) \<ge> vx (bmax boxB) \<or>
             vy (bmax boxA) \<le> vy (bmin boxB) \<or> vy (bmin boxA) \<ge> vy (bmax boxB) \<or>
             vz (bmax boxA) \<le> vz (bmin boxB) \<or> vz (bmin boxA) \<ge> vz (bmax boxB))
      in \<not> noOverlap)"

definition EPSILON :: real where
  "EPSILON = 1 / 1000000"

text \<open>\<open>v[axis]\<close> for \<open>axis = i === 0 ? 'x' : i === 1 ? 'y' : 'z'\<close>.\<close>

definition axis_of :: "nat \<Rightarrow> Vector3 \<Rightarrow> real" where
  "axis_of i v = (if i = 0 then vx v else if i = 1 then vy v else vz v)"

text \<open>
  The body of the \<open>for\<close> loop of \<open>checkRayAABBIntersection\<close> for one axis, on the
  running pair \<open>(tmin, tmax)\<close>; \<open>None\<close> is the \<open>return null\<close> inside the loop.
\<close>

definition slab_step ::
  "real \<Rightarrow> real \<Rightarrow> real \<Rightarrow> real \<Rightarrow> real \<times> real \<Rightarrow> (real \<times> real) option" where
  "slab_step dirAxis originAxis minAxis maxAxis tt =
     (if \<bar>dirAxis\<bar> < EPSILON then
        (if originAxis < minAxis \<or> originAxis > maxAxis then None else Some tt)
      else
        let invDir = 1 / dirAxis;
            t1 = (minAxis - originAxis) * invDir;
            t2 = (maxAxis - originAxis) * invDir;
            (t1, t2) = (if t1 > t2 then (t2, t1) else (t1, t2));
            tmin = max (fst tt) t1;
            tmax = min (snd tt) t2
        in if tmin > tmax then None else Some (tmin, tmax))"

fun slab_loop ::
  "Vector3 \<Rightarrow> Vector3 \<Rightarrow> AABB \<Rightarrow> nat list \<Rightarrow> real \<times> real \<Rightarrow> (real \<times> real) option" where
  "slab_loop rayOrigin rayDirection aabb [] tt = Some tt"
| "slab_loop rayOrigin rayDirection aabb (i # rest) tt =
     (case slab_step (axis_of i rayDirection) (axis_of i rayOrigin)
             (axis_of i (bmin aabb)) (axis_of i (bmax aabb)) tt of
        None \<Rightarrow> None
      | Some tt' \<Rightarrow> slab_loop rayOrigin rayDirection aabb rest tt')"

text \<open>
  \<open>checkRayAABBIntersection(rayOrigin, rayDirection, maxDistance, aabb)\<close>,
  collision-system.js lines 141-190; \<open>None\<close> is \<open>null\<close>. The source never reads
  \<open>maxDistance\<close>.
\<close>

definition checkRayAABBIntersection ::
  "Vector3 \<Rightarrow> Vector3 \<Rightarrow> real \<Rightarrow> AABB \<Rightarrow> real option" where
  "checkRayAABBIntersection rayOrigin rayDirection maxDistance aabb =
     (if Vector3_magnitudeSq rayDirection < 0.00001 then
        (if checkAABBOverlap (AABB rayOrigin rayOrigin) aabb then Some 0 else None)
      else
        case slab_loop rayOrigin rayDirection aabb [0, 1, 2] (0, 1) of
          None \<Rightarrow> None
        | Some (tmin, tmax) \<Rightarrow>
            if tmin \<le> 1 \<and> tmax \<ge> 0 \<and> tmin \<ge> 0 then Some tmin else None)"

text \<open>
  The slab test in the words of the specification: an axis is parallel when the
  direction's component is below \<open>EPSILON\<close> in absolute value; the ray enters the slab of
  any other axis at the smaller and leaves it at the larger of the two plane fractions;
  the entry fraction is the last entry over those axes and the exit fraction the first
  exit, both cut to the segment \<open>[0, 1]\<close>.
\<close>

definition axis_parallel :: "Vector3 \<Rightarrow> nat \<Rightarrow> bool" where
  "axis_parallel rayDirection i = (\<bar>axis_of i rayDirection\<bar> < EPSILON)"

definition outside_slab :: "Vector3 \<Rightarrow> AABB \<Rightarrow> nat \<Rightarrow> bool" where
  "outside_slab rayOrigin aabb i =
     (axis_of i rayOrigin < axis_of i (bmin aabb) \<or> axis_of i rayOrigin > axis_of i (bmax aabb))"

definition entry_time :: "Vector3 \<Rightarrow> Vector3 \<Rightarrow> AABB \<Rightarrow> nat \<Rightarrow> real" where
  "entry_time rayOrigin rayDirection aabb i =
     min ((axis_of i (bmin aabb) - axis_of i rayOrigin) / axis_of i rayDirection)
         ((axis_of i (bmax aabb) - axis_of i rayOrigin) / axis_of i rayDirection)"

definition exit_time :: "Vector3 \<Rightarrow> Vector3 \<Rightarrow> AABB \<Rightarrow> nat \<Rightarrow> real" where
  "exit_time rayOrigin rayDirection aabb i =
     max ((axis_of i (bmin aabb) - axis_of i rayOrigin) / axis_of i rayDirection)
         ((axis_of i (bmax aabb) - axis_of i rayOrigin) / axis_of i rayDirection)"

definition slab_entry :: "Vector3 \<Rightarrow> Vector3 \<Rightarrow> AABB \<Rightarrow> real" where
  "slab_entry rayOrigin rayDirection aabb =
     Max (insert 0 (entry_time rayOrigin rayDirection aabb `
                      {i \<in> {0, 1, 2}. \<not> axis_parallel rayDirection i}))"

definition slab_exit :: "Vector3 \<Rightarrow> Vector3 \<Rightarrow> AABB \<Rightarrow> real" where
  "slab_exit rayOrigin rayDirection aabb =
     Min (insert 1 (exit_time rayOrigin rayDirection aabb `
                      {i \<in> {0, 1, 2}. \<not> axis_parallel rayDirection i}))"

section \<open>ClientPlayer: applying a snapshot\<close>

text \<open>
  A \<open>PlayerState\<close> as it arrives. The fields \<open>updateState\<close> and \<open>setState\<close> test against
  \<open>undefined\<close> are options; a position that is present has its three numbers, as the
  \<open>PlayerState\<close> typedef says.
\<close>

record PlayerState =
  ps_id :: string
  ps_position :: "Vector3 option"
  ps_health :: "real option"
  ps_maxHealth :: "real option"
  ps_name :: "string option"
  ps_score :: "real option"
  ps_isAlive :: "bool option"

text \<open>
  The fields of \<open>ClientPlayer\<close> that \<open>updateState\<close> touches; the mesh and the animation
  state belong to rendering.
\<close>

record ClientPlayer = Player +
  previousState :: "PlayerState option"
  targetState :: "PlayerState option"
  lastStateTimestamp :: real
  targetStateTimestamp :: real

definition RECONCILIATION_THRESHOLD_SQ :: real where
  "RECONCILIATION_THRESHOLD_SQ = 0.2 * 0.2"

text \<open>\<open>GameObject.setState\<close> and \<open>Player.setState\<close>.\<close>

definition GameObject_setState :: "PlayerState \<Rightarrow> 'a GameObject_scheme \<Rightarrow> 'a GameObject_scheme" where
  "GameObject_setState state g =
     (case ps_position state of Some pos \<Rightarrow> g\<lparr>position := pos\<rparr> | None \<Rightarrow> g)"

definition Player_setState :: "PlayerState \<Rightarrow> 'a Player_scheme \<Rightarrow> 'a Player_scheme" where
  "Player_setState state p =
     (let p0 = GameObject_setState state p;
          p1 = (case ps_health state of Some h \<Rightarrow> p0\<lparr>health := h\<rparr> | None \<Rightarrow> p0);
          p2 = (case ps_maxHealth state of Some h \<Rightarrow> p1\<lparr>maxHealth := h\<rparr> | None \<Rightarrow> p1);
          p3 = (case ps_name state of Some n \<Rightarrow> p2\<lparr>name := n\<rparr> | None \<Rightarrow> p2);
          p4 = (case ps_score state of Some s \<Rightarrow> p3\<lparr>score := s\<rparr> | None \<Rightarrow> p3)
      in case ps_isAlive state of Some a \<Rightarrow> p4\<lparr>isAlive := a\<rparr> | None \<Rightarrow> p4)"

text \<open>
  \<open>ClientPlayer.updateState(newState, serverTimestamp)\<close>, client-player.js lines 149-214.
  \<open>localPlayerId\<close> is what \<open>NetworkManager.getLocalPlayerId()\<close> returns, \<open>None\<close> for
  \<open>null\<close>.
\<close>

definition updateState ::
  "string option \<Rightarrow> PlayerState \<Rightarrow> real \<Rightarrow> ClientPlayer \<Rightarrow> ClientPlayer" where
  "updateState localPlayerId newState serverTimestamp p =
     (let isLocalPlayer = (Some (obj_id p) = localPlayerId);
          pa = (case targetState p of
                  Some ts \<Rightarrow> p\<lparr>previousState := Some ts,
                               lastStateTimestamp := targetStateTimestamp p\<rparr>
                | None \<Rightarrow> p\<lparr>previousState := Some newState,
                            lastStateTimestamp := serverTimestamp - SERVER_TICK_INTERVAL_MS\<rparr>);
          pb = pa\<lparr>targetState := Some newState, targetStateTimestamp := serverTimestamp\<rparr>
      in if isLocalPlayer then
           let p1 = (case ps_health newState of Some h \<Rightarrow> pb\<lparr>health := h\<rparr> | None \<Rightarrow> pb);
               p2 = (case ps_maxHealth newState of Some h \<Rightarrow> p1\<lparr>maxHealth := h\<rparr> | None \<Rightarrow> p1);
               p3 = (case ps_score newState of Some s \<Rightarrow> p2\<lparr>score := s\<rparr> | None \<Rightarrow> p2);
               p4 = (case ps_isAlive newState of Some a \<Rightarrow> p3\<lparr>isAlive := a\<rparr> | None \<Rightarrow> p3)
           in if ps_position newState \<noteq> None \<and> isAlive p4 then
                (case ps_position newState of
                   None \<Rightarrow> p4
                 | Some serverPos \<Rightarrow>
                     let discrepancySq = Vector3_distanceToSq (position p4) serverPos
                     in if discrepancySq > RECONCILIATION_THRESHOLD_SQ
                        then p4\<lparr>position := serverPos, velocity := Vector3 0 0 0\<rparr>
                        else p4)
              else if \<not> isAlive p4 then
                (let p5 = (case ps_position newState of
                             Some pos \<Rightarrow> p4\<lparr>position := pos\<rparr>
                           | None \<Rightarrow> p4)
                 in p5\<lparr>velocity := Vector3 0 0 0\<rparr>)
              else p4
         else Player_setState newState pb)"

text \<open>The \<open>ClientPlayer\<close> constructor, from the first state received.\<close>

definition new_ClientPlayer :: "PlayerState \<Rightarrow> real \<Rightarrow> ClientPlayer" where
  "new_ClientPlayer initialState timestamp =
     Player_setState initialState
       \<lparr>obj_id = ps_id initialState, position = Vector3 0 0 0, velocity = Vector3 0 0 0,
        health = 100, maxHealth = 100,
        name = (case ps_name initialState of Some n \<Rightarrow> n | None \<Rightarrow> ''Player_'' @ take 4 (ps_id initialState)),
        score = 0, currentWeapon = None, isAlive = True,
        previousState = Some initialState, targetState = Some initialState,
        lastStateTimestamp = timestamp - SERVER_TICK_INTERVAL_MS,
        targetStateTimestamp = timestamp\<rparr>"

section \<open>Firing the pistol\<close>

text \<open>\<open>ammo--\<close> on a possibly infinite number.\<close>

fun jsnum_dec :: "jsnum \<Rightarrow> jsnum" where
  "jsnum_dec (Num a) = Num (a - 1)"
| "jsnum_dec Infinity = Infinity"

text \<open>
  \<open>Weapon.startReload()\<close>. The timer that later calls \<open>finishReload\<close> is an event of its
  own, \<open>finishReload\<close> below.
\<close>

definition startReload :: "real \<Rightarrow> Weapon \<Rightarrow> Weapon" where
  "startReload now w =
     (if maxAmmo w = Infinity \<or> isReloading w \<or> ammo w = maxAmmo w then w
      else w\<lparr>isReloading := True, reloadStartTime := now\<rparr>)"

definition finishReload :: "Weapon \<Rightarrow> Weapon" where
  "finishReload w = (if \<not> isReloading w then w else w\<lparr>isReloading := False, ammo := maxAmmo w\<rparr>)"

text \<open>The object a successful \<open>Pistol.fire\<close> returns.\<close>

record ProjectileData =
  pd_type :: string
  pd_ownerId :: string
  pd_origin :: Vector3
  pd_velocity :: Vector3
  pd_damage :: real
  pd_speed :: real
  pd_range :: real
  pd_size :: real

text \<open>
  \<open>Pistol.fire(direction)\<close>, pistol.js lines 46-86, for an owner with the given id and
  position: the data of the projectile or \<open>None\<close> for \<open>null\<close>, and the weapon.
\<close>

definition Pistol_fire ::
  "real \<Rightarrow> string \<Rightarrow> Vector3 \<Rightarrow> Vector3 \<Rightarrow> Weapon \<Rightarrow> ProjectileData option \<times> Weapon" where
  "Pistol_fire now ownerIdent ownerPosition direction w =
     (if \<not> canFire now w then (None, w)
      else
        let w1 = w\<lparr>lastFireTime := now\<rparr>;
            w2 = (if maxAmmo w1 \<noteq> Infinity then
                    (let w' = w1\<lparr>ammo := jsnum_dec (ammo w1)\<rparr>
                     in if jsnum_le_zero (ammo w') then startReload now w' else w')
                  else w1);
            orig = Vector3_add ownerPosition (Vector3 0 PLAYER_EYE_HEIGHT 0);
            vel = Vector3_multiplyScalar direction (projectileSpeed w2)
        in (Some \<lparr>pd_type = ''pistol_bullet'', pd_ownerId = ownerIdent, pd_origin = orig,
                  pd_velocity = vel, pd_damage = weapon_damage w2, pd_speed = projectileSpeed w2,
                  pd_range = weapon_range w2, pd_size = PISTOL_PROJECTILE_SIZE\<rparr>, w2))"

text \<open>\<open>Player.fireWeapon(direction)\<close>: nothing for a dead or unarmed player.\<close>

definition fireWeapon ::
  "real \<Rightarrow> Vector3 \<Rightarrow> 'a Player_scheme \<Rightarrow> ProjectileData option \<times> 'a Player_scheme" where
  "fireWeapon now direction p =
     (case currentWeapon p of
        None \<Rightarrow> (None, p)
      | Some w \<Rightarrow>
          if \<not> isAlive p then (None, p)
          else (let (pd, w') = Pistol_fire now (obj_id p) (position p) direction w
                in (pd, p\<lparr>currentWeapon := Some w'\<rparr>)))"

section \<open>ServerPlayer\<close>

record Keys =
  key_W :: bool
  key_A :: bool
  key_S :: bool
  key_D :: bool
  key_Shift :: bool
  key_Space :: bool
  key_Fire :: bool
  key_Cast1 :: bool
  key_Cast2 :: bool

record PlayerInput =
  sequence :: real
  input_deltaTime :: real
  keys :: Keys
  input_lookYaw :: real
  input_lookPitch :: real

text \<open>
  The fields of \<open>ServerPlayer\<close> besides those of \<open>Player\<close>; the socket, the weapon factory
  and the spawn manager are collaborators.
\<close>

record ServerPlayer = Player +
  lastProcessedInputTime :: real
  lastProcessedInputSequence :: real
  pendingInputs :: "PlayerInput list"
  lookYaw :: real
  lookPitch :: real
  timeToRespawn :: real

text \<open>\<open>ServerPlayer.onDeath()\<close>.\<close>

definition ServerPlayer_onDeath :: "ServerPlayer \<Rightarrow> ServerPlayer" where
  "ServerPlayer_onDeath p = p\<lparr>timeToRespawn := RESPAWN_DELAY, velocity := Vector3 0 0 0\<rparr>"

text \<open>\<open>ServerPlayer.processInput(inputData)\<close> for a packet with a numeric sequence.\<close>

definition processInput :: "PlayerInput \<Rightarrow> ServerPlayer \<Rightarrow> ServerPlayer" where
  "processInput inputData p = p\<lparr>pendingInputs := pendingInputs p @ [inputData]\<rparr>"







section \<open>CollisionSystem: projectile ray casts\<close>

text \<open>A static obstacle of the map: the centre of its base, its size and its type.\<close>

record Obstacle =
  obs_type :: string
  obs_position :: Vector3
  obs_size :: Vector3

text \<open>
  The box \<open>obstacleAABB\<close> both ray casts and the penetration resolver build: the position
  is the centre of the base, the box rises by \<open>size.y\<close> above it.
\<close>

definition obstacleAABB :: "Obstacle \<Rightarrow> AABB" where
  "obstacleAABB obstacle =
     (let obsHalfSize = Vector3_divideScalar (obs_size obstacle) 2;
          obsMin = Vector3_add (obs_position obstacle)
                     (Vector3 (- vx obsHalfSize) 0 (- vz obsHalfSize));
          obsMax = Vector3_add (obs_position obstacle)
                     (Vector3 (vx obsHalfSize) (vy (obs_size obstacle)) (vz obsHalfSize))
      in AABB obsMin obsMax)"

text \<open>
  The loop of \<open>checkProjectileHitStaticObstacleRaycast\<close> over the obstacles. The running
  pair \<open>(closestHit, min_t)\<close> is \<open>None\<close> while \<open>closestHit\<close> is \<open>null\<close> and \<open>min_t\<close> is
  \<open>Infinity\<close>.
\<close>

fun static_hit_loop ::
  "Vector3 \<Rightarrow> Vector3 \<Rightarrow> real \<Rightarrow> Obstacle list \<Rightarrow> (Obstacle \<times> real) option
     \<Rightarrow> (Obstacle \<times> real) option" where
  "static_hit_loop rayOrigin rayDirection maxDistance [] closest = closest"
| "static_hit_loop rayOrigin rayDirection maxDistance (obstacle # rest) closest =
     static_hit_loop rayOrigin rayDirection maxDistance rest
       (case checkRayAABBIntersection rayOrigin rayDirection maxDistance (obstacleAABB obstacle) of
          None \<Rightarrow> closest
        | Some t_hit \<Rightarrow>
            if t_hit \<ge> 0 \<and> (case closest of None \<Rightarrow> True | Some (c, min_t) \<Rightarrow> t_hit < min_t)
            then Some (obstacle, t_hit)
            else closest)"

text \<open>\<open>checkProjectileHitStaticObstacleRaycast\<close>, collision-system.js lines 199-232.\<close>

definition checkProjectileHitStaticObstacleRaycast ::
  "Vector3 \<Rightarrow> Vector3 \<Rightarrow> Obstacle list \<Rightarrow> (Obstacle \<times> real) option" where
  "checkProjectileHitStaticObstacleRaycast projectilePreviousPos projectileDeltaMove obstacles =
     (let maxDistance = Vector3_magnitude projectileDeltaMove
      in if maxDistance < 0.0001 then None
         else static_hit_loop projectilePreviousPos projectileDeltaMove maxDistance obstacles None)"

text \<open>
  \<open>Player._calculateHitboxes(pos)\<close>, player.js lines 467-507: head, torso and legs in
  the order the object is filled, which is the order \<open>for ... in\<close> visits.
\<close>

definition calculateHitboxes :: "Vector3 \<Rightarrow> (string \<times> AABB) list" where
  "calculateHitboxes pos =
     (let epsilon = 0.02;
          headSize = PLAYER_WIDTH * 0.7;
          torsoHeight = PLAYER_HEIGHT * 0.45;
          torsoWidth = PLAYER_WIDTH;
          torsoDepth = PLAYER_DEPTH * 0.8;
          legHeight = PLAYER_HEIGHT * 0.4;
          legWidth = PLAYER_WIDTH * 0.4;
          legDepth = PLAYER_DEPTH * 0.4;
          legTopY = vy pos + legHeight;
          torsoTopY = legTopY + torsoHeight;
          headCenterY = torsoTopY + headSize / 2;
          headCenter = Vector3 (vx pos) headCenterY (vz pos);
          headHalf = Vector3 (headSize / 2 + epsilon) (headSize / 2 + epsilon) (headSize / 2 + epsilon);
          torsoCenter = Vector3 (vx pos) (legTopY + torsoHeight / 2) (vz pos);
          torsoHalf = Vector3 (torsoWidth / 2 + epsilon) (torsoHeight / 2 + epsilon)
                        (torsoDepth / 2 + epsilon);
          legCenter = Vector3 (vx pos) (vy pos + legHeight / 2) (vz pos);
          legHalf = Vector3 (legWidth / 2 + epsilon) (legHeight / 2 + epsilon) (legDepth / 2 + epsilon)
      in [(''head'', AABB (Vector3_subtract headCenter headHalf) (Vector3_add headCenter headHalf)),
          (''torso'', AABB (Vector3_subtract torsoCenter torsoHalf) (Vector3_add torsoCenter torsoHalf)),
          (''legs'', AABB (Vector3_subtract legCenter legHalf) (Vector3_add legCenter legHalf))])"

definition getHitboxes :: "'a Player_scheme \<Rightarrow> (string \<times> AABB) list" where
  "getHitboxes p = calculateHitboxes (position p)"

text \<open>
  The two nested loops of \<open>checkProjectileHitRaycast\<close>. A target is named by its index in
  the list of targets; the running result \<open>closestHitResult\<close> carries \<open>min_t\<close> as its \<open>t\<close>.
\<close>

fun hitbox_loop ::
  "Vector3 \<Rightarrow> Vector3 \<Rightarrow> real \<Rightarrow> nat \<Rightarrow> (string \<times> AABB) list \<Rightarrow> (nat \<times> string \<times> real) option
     \<Rightarrow> (nat \<times> string \<times> real) option" where
  "hitbox_loop rayOrigin rayDirection maxDistance target [] closest = closest"
| "hitbox_loop rayOrigin rayDirection maxDistance target ((hitboxKey, targetBox) # rest) closest =
     hitbox_loop rayOrigin rayDirection maxDistance target rest
       (case checkRayAABBIntersection rayOrigin rayDirection maxDistance targetBox of
          None \<Rightarrow> closest
        | Some t_hit \<Rightarrow>
            if t_hit \<ge> 0 \<and> (case closest of None \<Rightarrow> True | Some (c, k, min_t) \<Rightarrow> t_hit < min_t)
            then Some (target, hitboxKey, t_hit)
            else closest)"

fun target_loop ::
  "string \<Rightarrow> Vector3 \<Rightarrow> Vector3 \<Rightarrow> real \<Rightarrow> nat \<Rightarrow> 'a Player_scheme list
     \<Rightarrow> (nat \<times> string \<times> real) option \<Rightarrow> (nat \<times> string \<times> real) option" where
  "target_loop owner rayOrigin rayDirection maxDistance i [] closest = closest"
| "target_loop owner rayOrigin rayDirection maxDistance i (target # rest) closest =
     target_loop owner rayOrigin rayDirection maxDistance (Suc i) rest
       (if obj_id target = owner \<or> \<not> isAlive target then closest
        else hitbox_loop rayOrigin rayDirection maxDistance i (getHitboxes target) closest)"

text \<open>\<open>checkProjectileHitRaycast\<close>, collision-system.js lines 242-294.\<close>

definition checkProjectileHitRaycast ::
  "Projectile \<Rightarrow> Vector3 \<Rightarrow> Vector3 \<Rightarrow> 'a Player_scheme list \<Rightarrow> (nat \<times> string \<times> real) option" where
  "checkProjectileHitRaycast projectile projectilePreviousPos projectileDeltaMove targets =
     (if markForRemoval projectile then None
      else
        let maxDistance = Vector3_magnitude projectileDeltaMove
        in if maxDistance < 0.0001 then None
           else target_loop (ownerId projectile) projectilePreviousPos projectileDeltaMove
                  maxDistance 0 targets None)"

section \<open>CollisionSystem: static obstacle penetration\<close>

definition RESOLUTION_EPSILON :: real where
  "RESOLUTION_EPSILON = 0.001"

definition MAX_RESOLUTION_ITERATIONS :: nat where
  "MAX_RESOLUTION_ITERATIONS = 3"

text \<open>
  The running state of \<open>resolveStaticObstacleCollision\<close>: the adjusted position, the
  entity's velocity, the entity's box (moved along with each push) and the flag
  \<open>collisionOccurredThisIteration\<close>.
\<close>

record ResolveState =
  adjustedPosition :: Vector3
  entityVelocity :: Vector3
  entityAABB :: AABB
  collisionOccurred :: bool

text \<open>
  The push along one axis, lines 333-339 and their two copies: the overlap, the box sides
  of entity and obstacle on that axis, and the velocity component. It returns the push
  and the velocity component.
\<close>

definition push_axis :: "real \<Rightarrow> real \<Rightarrow> real \<Rightarrow> real \<Rightarrow> real \<Rightarrow> real \<Rightarrow> real \<times> real" where
  "push_axis overlap eMin eMax oMin oMax vel =
     (let entityCenter = eMin + (eMax - eMin) / 2;
          obstacleCenter = oMin + (oMax - oMin) / 2;
          pushDirection = (if entityCenter < obstacleCenter then - (overlap + RESOLUTION_EPSILON)
                           else overlap + RESOLUTION_EPSILON)
      in (pushDirection, if Math_sign vel * Math_sign pushDirection < 0 then 0 else vel))"

text \<open>The body of the inner loop, lines 316-359, for one obstacle.\<close>

definition resolve_obstacle :: "ResolveState \<Rightarrow> Obstacle \<Rightarrow> ResolveState" where
  "resolve_obstacle st obstacle =
     (let box = entityAABB st; ob = obstacleAABB obstacle;
          pos = adjustedPosition st; v = entityVelocity st
      in if checkAABBOverlap box ob then
           let overlapX = min (vx (bmax box)) (vx (bmax ob)) - max (vx (bmin box)) (vx (bmin ob));
               overlapY = min (vy (bmax box)) (vy (bmax ob)) - max (vy (bmin box)) (vy (bmin ob));
               overlapZ = min (vz (bmax box)) (vz (bmax ob)) - max (vz (bmin box)) (vz (bmin ob))
           in if overlapX \<le> overlapY \<and> overlapX \<le> overlapZ then
                (let (push, vel) = push_axis overlapX (vx (bmin box)) (vx (bmax box))
                                     (vx (bmin ob)) (vx (bmax ob)) (vx v)
                 in \<lparr>adjustedPosition = Vector3 (vx pos + push) (vy pos) (vz pos),
                     entityVelocity = Vector3 vel (vy v) (vz v),
                     entityAABB = AABB (Vector3 (vx (bmin box) + push) (vy (bmin box)) (vz (bmin box)))
                                       (Vector3 (vx (bmax box) + push) (vy (bmax box)) (vz (bmax box))),
                     collisionOccurred = True\<rparr>)
              else if overlapY \<le> overlapX \<and> overlapY \<le> overlapZ then
                (let (push, vel) = push_axis overlapY (vy (bmin box)) (vy (bmax box))
                                     (vy (bmin ob)) (vy (bmax ob)) (vy v)
                 in \<lparr>adjustedPosition = Vector3 (vx pos) (vy pos + push) (vz pos),
                     entityVelocity = Vector3 (vx v) vel (vz v),
                     entityAABB = AABB (Vector3 (vx (bmin box)) (vy (bmin box) + push) (vz (bmin box)))
                                       (Vector3 (vx (bmax box)) (vy (bmax box) + push) (vz (bmax box))),
                     collisionOccurred = True\<rparr>)
              else
                (let (push, vel) = push_axis overlapZ (vz (bmin box)) (vz (bmax box))
                                     (vz (bmin ob)) (vz (bmax ob)) (vz v)
                 in \<lparr>adjustedPosition = Vector3 (vx pos) (vy pos) (vz pos + push),
                     entityVelocity = Vector3 (vx v) (vy v) vel,
                     entityAABB = AABB (Vector3 (vx (bmin box)) (vy (bmin box)) (vz (bmin box) + push))
                                       (Vector3 (vx (bmax box)) (vy (bmax box)) (vz (bmax box) + push)),
                     collisionOccurred = True\<rparr>)
         else st)"

text \<open>
  The outer loop: at most \<open>iter\<close> more passes over the obstacles, each starting from the
  entity's box at the adjusted position, stopping after a pass without overlap.
\<close>

fun resolve_passes ::
  "nat \<Rightarrow> (Vector3 \<Rightarrow> AABB) \<Rightarrow> Obstacle list \<Rightarrow> Vector3 \<times> Vector3 \<Rightarrow> Vector3 \<times> Vector3" where
  "resolve_passes 0 getBoundingBox obstacles (pos, vel) = (pos, vel)"
| "resolve_passes (Suc iter) getBoundingBox obstacles (pos, vel) =
     (let st = foldl resolve_obstacle
                 \<lparr>adjustedPosition = pos, entityVelocity = vel,
                  entityAABB = getBoundingBox pos, collisionOccurred = False\<rparr> obstacles
      in if \<not> collisionOccurred st then (adjustedPosition st, entityVelocity st)
         else resolve_passes iter getBoundingBox obstacles (adjustedPosition st, entityVelocity st))"

text \<open>
  \<open>resolveStaticObstacleCollision(entity, potentialPosition, obstacles)\<close>, lines 304-369,
  for an entity with the given \<open>getBoundingBox\<close>: the adjusted position and the entity
  with its velocity as the pushes left it.
\<close>

definition resolveStaticObstacleCollision ::
  "(Vector3 \<Rightarrow> AABB) \<Rightarrow> 'a GameObject_scheme \<Rightarrow> Vector3 \<Rightarrow> Obstacle list
     \<Rightarrow> Vector3 \<times> 'a GameObject_scheme" where
  "resolveStaticObstacleCollision getBoundingBox entity potentialPosition obstacles =
     (let (pos, vel) = resolve_passes MAX_RESOLUTION_ITERATIONS getBoundingBox obstacles
                         (potentialPosition, velocity entity)
      in (pos, entity\<lparr>velocity := vel\<rparr>))"

section \<open>MovementSystem\<close>

text \<open>The \<open>broadcastImpactEffect\<close> event.\<close>

record ImpactEvent =
  ev_projectileId :: string
  ev_position :: Vector3
  ev_surfaceType :: string
  ev_obstacleType :: "string option"

text \<open>
  \<open>finalHitResult\<close>: the result of the obstacle ray cast, \<open>{obstacle, t}\<close>, or that of the
  player ray cast, \<open>{target, hitboxKey, t}\<close>.
\<close>

datatype HitResult = StaticHit Obstacle real | PlayerHit nat string real

fun hit_t :: "HitResult \<Rightarrow> real" where
  "hit_t (StaticHit obstacle t) = t"
| "hit_t (PlayerHit target hitboxKey t) = t"

text \<open>Lines 79-87 of movement-system.js: the earlier of the two hits.\<close>

definition chooseHit ::
  "(Obstacle \<times> real) option \<Rightarrow> (nat \<times> string \<times> real) option \<Rightarrow> HitResult option" where
  "chooseHit hitStaticResult hitPlayerResult =
     (case (hitStaticResult, hitPlayerResult) of
        (Some (obstacle, t), Some (target, hitboxKey, tp)) \<Rightarrow>
          if t \<le> tp then Some (StaticHit obstacle t) else Some (PlayerHit target hitboxKey tp)
      | (Some (obstacle, t), None) \<Rightarrow> Some (StaticHit obstacle t)
      | (None, Some (target, hitboxKey, tp)) \<Rightarrow> Some (PlayerHit target hitboxKey tp)
      | (None, None) \<Rightarrow> None)"

text \<open>
  What a hit does besides stopping the projectile, lines 101-122: the event, and the
  damage to the struck player, with \<open>hitboxKey || 'default'\<close> as the region.
\<close>

definition impactEvent_of :: "Projectile \<Rightarrow> Vector3 \<Rightarrow> HitResult \<Rightarrow> ImpactEvent" where
  "impactEvent_of entity impactPoint hit =
     (case hit of
        StaticHit obstacle t \<Rightarrow>
          \<lparr>ev_projectileId = obj_id entity, ev_position = impactPoint,
           ev_surfaceType = ''static'', ev_obstacleType = Some (obs_type obstacle)\<rparr>
      | PlayerHit target hitboxKey t \<Rightarrow>
          \<lparr>ev_projectileId = obj_id entity, ev_position = impactPoint,
           ev_surfaceType = ''player'', ev_obstacleType = None\<rparr>)"

definition applyHitDamage ::
  "('a Player_scheme \<Rightarrow> 'a Player_scheme) option \<Rightarrow> Projectile \<Rightarrow> HitResult
     \<Rightarrow> 'a Player_scheme list \<Rightarrow> 'a Player_scheme list" where
  "applyHitDamage onDeath entity hit players =
     (case hit of
        StaticHit obstacle t \<Rightarrow> players
      | PlayerHit target hitboxKey t \<Rightarrow>
          if target < length players then
            players[target := takeDamage onDeath (damage entity)
                                (Some (if hitboxKey = [] then ''default'' else hitboxKey))
                                (players ! target)]
          else players)"

text \<open>Gravity, lines 44-47: \<open>Projectile\<close> has no \<open>ignoreGravity\<close>, so it always applies.\<close>

definition applyGravity :: "real \<Rightarrow> 'a GameObject_scheme \<Rightarrow> 'a GameObject_scheme" where
  "applyGravity deltaTime entity =
     entity\<lparr>velocity := Vector3 (vx (velocity entity)) (vy (velocity entity) - GRAVITY * deltaTime)
                           (vz (velocity entity))\<rparr>"

text \<open>\<open>deltaPosition\<close> of the tick: the velocity after gravity times the step.\<close>

definition deltaPosition_of :: "real \<Rightarrow> 'a GameObject_scheme \<Rightarrow> Vector3" where
  "deltaPosition_of deltaTime entity =
     Vector3_multiplyScalar (velocity (applyGravity deltaTime entity)) deltaTime"

text \<open>The last lines of the loop body: commit the position, rest on the ground, stop.\<close>

definition commitPosition :: "real \<Rightarrow> bool \<Rightarrow> Vector3 \<Rightarrow> Projectile \<Rightarrow> Projectile" where
  "commitPosition GROUND_Y projectileStopped finalPosition entity =
     (let e1 = entity\<lparr>position := finalPosition\<rparr>;
          IS_ON_GROUND = (vy finalPosition \<le> GROUND_Y + 0.01);
          e2 = (if IS_ON_GROUND \<and> vy (velocity e1) < 0
                then e1\<lparr>velocity := Vector3 (vx (velocity e1)) 0 (vz (velocity e1))\<rparr> else e1)
      in if projectileStopped then e2\<lparr>velocity := Vector3 0 0 0\<rparr> else e2)"

text \<open>Lines 162-176: the world bounds, then the static obstacles.\<close>

definition resolveUnstopped :: "AABB \<Rightarrow> Obstacle list \<Rightarrow> Vector3 \<Rightarrow> Projectile \<Rightarrow> Vector3 \<times> Projectile" where
  "resolveUnstopped mapBounds obstacles potentialPosition entity =
     (let (boundedPosition, e1) =
            resolveWorldBoundsCollision (Projectile_dims entity) entity potentialPosition mapBounds
      in resolveStaticObstacleCollision (Projectile_getBoundingBox e1) e1 boundedPosition obstacles)"

text \<open>
  The body of the loop of \<open>MovementSystem.update(entities, deltaTime, players)\<close> for an
  entity that is a \<open>Projectile\<close>, in the version with the ground test (192 lines). The
  result is the projectile, the players (a struck one damaged) and the events emitted;
  \<open>hasEmitter\<close> says whether \<open>global.eventEmitter\<close> is set.
\<close>

definition MovementSystem_update_projectile ::
  "AABB \<Rightarrow> Obstacle list \<Rightarrow> ('a Player_scheme \<Rightarrow> 'a Player_scheme) option \<Rightarrow> bool \<Rightarrow> real
     \<Rightarrow> 'a Player_scheme list \<Rightarrow> Projectile
     \<Rightarrow> Projectile \<times> 'a Player_scheme list \<times> ImpactEvent list" where
  "MovementSystem_update_projectile mapBounds obstacles onDeath hasEmitter deltaTime players entity0 =
     (if deltaTime \<le> 0 then (entity0, players, [])
      else
        let GROUND_Y = vy (bmin mapBounds);
            entity = applyGravity deltaTime entity0;
            previousPosition = position entity;
            deltaPosition = Vector3_multiplyScalar (velocity entity) deltaTime;
            potentialPosition = Vector3_add previousPosition deltaPosition
        in if \<not> markForRemoval entity then
             let hitStaticResult =
                   checkProjectileHitStaticObstacleRaycast previousPosition deltaPosition obstacles;
                 hitPlayerResult =
                   checkProjectileHitRaycast entity previousPosition deltaPosition players;
                 finalHitResult = chooseHit hitStaticResult hitPlayerResult
             in case (case finalHitResult of
                        Some hit \<Rightarrow> if hit_t hit \<ge> 0 \<and> hit_t hit \<le> 1 then Some hit else None
                      | None \<Rightarrow> None) of
                  Some hit \<Rightarrow>
                    let impactPoint = Vector3_add previousPosition
                                        (Vector3_multiplyScalar deltaPosition (hit_t hit));
                        e1 = entity\<lparr>markForRemoval := True, velocity := Vector3 0 0 0\<rparr>
                    in (commitPosition GROUND_Y True impactPoint e1,
                        applyHitDamage onDeath e1 hit players,
                        if hasEmitter then [impactEvent_of e1 impactPoint hit] else [])
                | None \<Rightarrow>
                    if vy previousPosition \<ge> GROUND_Y \<and> vy potentialPosition < GROUND_Y
                       \<and> (let t_ground = (GROUND_Y - vy previousPosition)
                                           / (vy potentialPosition - vy previousPosition)
                          in t_ground \<ge> 0 \<and> t_ground \<le> 1)
                    then
                      let t_ground = (GROUND_Y - vy previousPosition)
                                       / (vy potentialPosition - vy previousPosition);
                          groundImpactPoint = Vector3_add previousPosition
                                                (Vector3_multiplyScalar deltaPosition t_ground);
                          e1 = entity\<lparr>markForRemoval := True, velocity := Vector3 0 0 0\<rparr>
                      in (commitPosition GROUND_Y True groundImpactPoint e1, players,
                          if hasEmitter
                          then [\<lparr>ev_projectileId = obj_id e1, ev_position = groundImpactPoint,
                                 ev_surfaceType = ''static'', ev_obstacleType = Some ''ground''\<rparr>]
                          else [])
                    else
                      (let (finalPosition, e1) =
                             resolveUnstopped mapBounds obstacles potentialPosition entity
                       in (commitPosition GROUND_Y False finalPosition e1, players, []))
           else
             (let (finalPosition, e1) = resolveUnstopped mapBounds obstacles potentialPosition entity
              in (commitPosition GROUND_Y False finalPosition e1, players, [])))"

text \<open>
  The same loop body in the version without the ground test (157 lines): any hit the ray
  casts return stops the projectile.
\<close>

definition MovementSystem_update_projectile_noground ::
  "AABB \<Rightarrow> Obstacle list \<Rightarrow> ('a Player_scheme \<Rightarrow> 'a Player_scheme) option \<Rightarrow> bool \<Rightarrow> real
     \<Rightarrow> 'a Player_scheme list \<Rightarrow> Projectile
     \<Rightarrow> Projectile \<times> 'a Player_scheme list \<times> ImpactEvent list" where
  "MovementSystem_update_projectile_noground mapBounds obstacles onDeath hasEmitter deltaTime
       players entity0 =
     (if deltaTime \<le> 0 then (entity0, players, [])
      else
        let entity = applyGravity deltaTime entity0;
            previousPosition = position entity;
            deltaPosition = Vector3_multiplyScalar (velocity entity) deltaTime;
            potentialPosition = Vector3_add previousPosition deltaPosition;
            GROUND_Y = vy (bmin mapBounds)
        in if \<not> markForRemoval entity then
             let hitStaticResult =
                   checkProjectileHitStaticObstacleRaycast previousPosition deltaPosition obstacles;
                 hitPlayerResult =
                   checkProjectileHitRaycast entity previousPosition deltaPosition players;
                 finalHitResult = chooseHit hitStaticResult hitPlayerResult
             in case finalHitResult of
                  Some hit \<Rightarrow>
                    let impactPoint = Vector3_add previousPosition
                                        (Vector3_multiplyScalar deltaPosition (hit_t hit));
                        e1 = entity\<lparr>markForRemoval := True, velocity := Vector3 0 0 0\<rparr>
                    in (commitPosition GROUND_Y True impactPoint e1,
                        applyHitDamage onDeath e1 hit players,
                        if hasEmitter then [impactEvent_of e1 impactPoint hit] else [])
                | None \<Rightarrow>
                    (let (finalPosition, e1) =
                           resolveUnstopped mapBounds obstacles potentialPosition entity
                     in (commitPosition GROUND_Y False finalPosition e1, players, []))
           else
             (let (finalPosition, e1) = resolveUnstopped mapBounds obstacles potentialPosition entity
              in (commitPosition GROUND_Y False finalPosition e1, players, [])))"

text \<open>
  What holds of a result of the player ray cast: the index names a live target other than
  the owner, the key is one of the three regions and the fraction lies in \<open>[0, 1]\<close>.
\<close>

definition good_hit :: "'a Player_scheme list \<Rightarrow> string \<Rightarrow> nat \<times> string \<times> real \<Rightarrow> bool" where
  "good_hit players owner h =
     (case h of (i, k, t) \<Rightarrow>
        i < length players \<and> isAlive (players ! i) \<and> obj_id (players ! i) \<noteq> owner
        \<and> k \<in> {''head'', ''torso'', ''legs''} \<and> 0 \<le> t \<and> t \<le> 1)"

section \<open>Example values\<close>

text \<open>A local client player standing at the origin and moving along x.\<close>

definition example_client :: ClientPlayer where
  "example_client =
     \<lparr>obj_id = ''me'', position = Vector3 0 0 0, velocity = Vector3 1 0 0,
      health = 100, maxHealth = 100, name = ''Me'', score = 0, currentWeapon = None,
      isAlive = True, previousState = None, targetState = None,
      lastStateTimestamp = 0, targetStateTimestamp = 0\<rparr>"

text \<open>A snapshot of that player at the given position.\<close>

definition example_snapshot :: "Vector3 \<Rightarrow> PlayerState" where
  "example_snapshot pos =
     \<lparr>ps_id = ''me'', ps_position = Some pos, ps_health = Some 80, ps_maxHealth = Some 120,
      ps_name = Some ''Me'', ps_score = Some 3, ps_isAlive = Some True\<rparr>"



text \<open>
  The wall scenario: a projectile at \<open>(0, 1, 0)\<close> whose displacement in a tick of length
  \<open>step\<close>, after gravity, is \<open>(10, 0, 0)\<close>, and a box of size 2 at \<open>(5, 1, 0)\<close>.
\<close>

definition scenario_projectile :: "real \<Rightarrow> Projectile" where
  "scenario_projectile step =
     new_Projectile ''o'' (Vector3 0 1 0) (Vector3 (10 / step) (GRAVITY * step) 0)
       15 60 100 ''pistol_bullet'' ''b''"

definition scenario_box :: Obstacle where
  "scenario_box = \<lparr>obs_type = ''box'', obs_position = Vector3 5 1 0, obs_size = Vector3 2 2 2\<rparr>"

text \<open>A player standing at \<open>(x, 0, 0)\<close>, in front of the box or level with its face.\<close>

definition scenario_target_at :: "real \<Rightarrow> Player" where
  "scenario_target_at x = new_Player ''t'' ''T'' (Vector3 x 0 0) (Vector3 0 0 0) 100"

text \<open>
  A bullet of speed 60 and range 6, and the double that the literal \<open>0.01\<close> denotes.
\<close>

definition range_bullet :: Projectile where
  "range_bullet =
     new_Projectile ''o'' (Vector3 0 1 0) (Vector3 60 0 0) 15 60 6 ''pistol_bullet'' ''b''"

definition double_0_01 :: real where
  "double_0_01 = 5764607523034235 / 576460752303423488"

text \<open>A bullet of speed 60 and range 100, for a step of one half.\<close>

definition long_bullet :: Projectile where
  "long_bullet =
     new_Projectile ''o'' (Vector3 0 1 0) (Vector3 60 0 0) 15 60 100 ''pistol_bullet'' ''b''"

section \<open>Player: damage and healing\<close>

lemma clamp_bounds: "0 \<le> hi \<Longrightarrow> 0 \<le> clamp v 0 hi \<and> clamp v 0 hi \<le> hi"
  by (simp add: clamp_def)

lemma takeDamage_maxHealth:
  "keeps_health od \<Longrightarrow> maxHealth (takeDamage od a k p) = maxHealth p"
  by (cases od) (simp_all add: takeDamage_def keeps_health_def Let_def)

lemma takeDamage_health_range:
  assumes "keeps_health od" and "0 \<le> health p" and "health p \<le> maxHealth p"
  shows "0 \<le> health (takeDamage od a k p) \<and> health (takeDamage od a k p) \<le> maxHealth p"
proof -
  from assms have mh: "0 \<le> maxHealth p" by simp
  show ?thesis
    using assms clamp_bounds [OF mh]
    by (cases od) (simp_all add: takeDamage_def keeps_health_def Let_def)
qed

lemma heal_maxHealth: "maxHealth (heal a p) = maxHealth p"
  by (simp add: heal_def)

lemma heal_health_range:
  assumes "0 \<le> health p" and "health p \<le> maxHealth p"
  shows "0 \<le> health (heal a p) \<and> health (heal a p) \<le> maxHealth p"
proof -
  from assms have mh: "0 \<le> maxHealth p" by simp
  show ?thesis using assms clamp_bounds [OF mh] by (simp add: heal_def)
qed

lemma apply_call_invariant:
  assumes "keeps_health od" and "0 \<le> health p" and "health p \<le> maxHealth p"
  shows "0 \<le> health (apply_call od p c) \<and> health (apply_call od p c) \<le> maxHealth p
         \<and> maxHealth (apply_call od p c) = maxHealth p"
  using assms takeDamage_health_range [OF assms] heal_health_range [OF assms(2,3)]
  by (cases c) (simp_all add: takeDamage_maxHealth heal_maxHealth)

lemma run_calls_invariant:
  assumes "keeps_health od"
  shows "0 \<le> health p \<Longrightarrow> health p \<le> maxHealth p \<Longrightarrow>
         0 \<le> health (run_calls od p cs) \<and> health (run_calls od p cs) \<le> maxHealth p
         \<and> maxHealth (run_calls od p cs) = maxHealth p"
proof (induction cs arbitrary: p)
  case Nil
  then show ?case by (simp add: run_calls_def)
next
  case (Cons c cs)
  have step: "0 \<le> health (apply_call od p c) \<and> health (apply_call od p c) \<le> maxHealth p
         \<and> maxHealth (apply_call od p c) = maxHealth p"
    using apply_call_invariant [OF assms Cons.prems] .
  have "run_calls od p (c # cs) = run_calls od (apply_call od p c) cs"
    by (simp add: run_calls_def)
  with Cons.IH [of "apply_call od p c"] step show ?case by simp
qed

lemma takeDamage_health:
  "isAlive p \<Longrightarrow> 0 < baseAmount \<Longrightarrow> keeps_health od \<Longrightarrow>
     health (takeDamage od baseAmount key p)
       = max 0 (min (health p - of_int (round (baseAmount * damage_multiplier key))) (maxHealth p))"
  by (cases od)
     (simp_all add: takeDamage_def keeps_health_def Let_def clamp_def Math_round_def round_def)

text \<open>
  C5: on a live player a positive \<open>baseAmount\<close> lowers health by
  \<open>round (baseAmount * multiplier)\<close>, the result clamped into \<open>[0, maxHealth]\<close>; the
  multiplier is 3.0 for the head, 1.0 for the torso, 0.8 for the arms, 0.6 for the legs
  and 1.0 for any other region; a player at full health 100 hit in the head for 15 loses
  45 and ends at 55.
\<close>

theorem takeDamage_region_damage:
  "(isAlive p \<and> 0 < baseAmount \<and> keeps_health od \<longrightarrow>
      health (takeDamage od baseAmount key p)
        = max 0 (min (health p - of_int (round (baseAmount * damage_multiplier key)))
                     (maxHealth p)))
   \<and> damage_multiplier (Some ''head'') = 3
   \<and> damage_multiplier (Some ''torso'') = 1
   \<and> damage_multiplier (Some ''arms'') = 4 / 5
   \<and> damage_multiplier (Some ''legs'') = 3 / 5
   \<and> damage_multiplier (Some ''default'') = 1
   \<and> damage_multiplier None = 1
   \<and> Math_round (15 * damage_multiplier (Some ''head'')) = 45
   \<and> health (takeDamage None 15 (Some ''head'') (new_Player i n pos vel 100)) = 55"
proof -
  have mult: "damage_multiplier (Some ''head'') = 3"
    "damage_multiplier (Some ''torso'') = 1"
    "damage_multiplier (Some ''arms'') = 4 / 5"
    "damage_multiplier (Some ''legs'') = 3 / 5"
    "damage_multiplier (Some ''default'') = 1"
    "damage_multiplier None = 1"
    by (simp_all add: damage_multiplier_def toLowerCase_def toLowerCase_char_def
        DAMAGE_MULTIPLIER_HEAD_def DAMAGE_MULTIPLIER_TORSO_def DAMAGE_MULTIPLIER_ARMS_def
        DAMAGE_MULTIPLIER_LEGS_def DAMAGE_MULTIPLIER_DEFAULT_def)
  have gen: "isAlive p \<and> 0 < baseAmount \<and> keeps_health od \<longrightarrow>
      health (takeDamage od baseAmount key p)
        = max 0 (min (health p - of_int (round (baseAmount * damage_multiplier key)))
                     (maxHealth p))"
    by (cases od)
       (simp_all add: takeDamage_def keeps_health_def Let_def clamp_def Math_round_def round_def)
  have r: "Math_round (15 * damage_multiplier (Some ''head'')) = 45"
    by (simp add: mult Math_round_def)
  have "health (takeDamage None 15 (Some ''head'') (new_Player i n pos vel 100)) = 55"
    by (simp add: takeDamage_def new_Player_def Let_def clamp_def r)
  with mult gen r show ?thesis by simp
qed

theorem takeDamage_region_damage_witness:
  "isAlive (new_Player ''a'' ''A'' Vector3_ZERO Vector3_ZERO 100) \<and> (0::real) < 40
   \<and> keeps_health (None :: (Player \<Rightarrow> Player) option)
   \<and> health (takeDamage None 40 (Some ''LEGS'')
        (new_Player ''a'' ''A'' Vector3_ZERO Vector3_ZERO 100)) = 76"
proof -
  have m: "damage_multiplier (Some ''LEGS'') = 3 / 5"
    by (simp add: damage_multiplier_def toLowerCase_def toLowerCase_char_def
        DAMAGE_MULTIPLIER_LEGS_def)
  have h: "isAlive (new_Player ''a'' ''A'' Vector3_ZERO Vector3_ZERO 100) \<and> (0::real) < 40
     \<and> keeps_health (None :: (Player \<Rightarrow> Player) option)"
    by (simp add: new_Player_def keeps_health_def)
  show ?thesis
    using h takeDamage_region_damage
      [of "new_Player ''a'' ''A'' Vector3_ZERO Vector3_ZERO 100" 40 None "Some ''LEGS''"]
    by (simp add: m new_Player_def)
qed

text \<open>
  C4, as amended: for a player whose health starts in \<open>[0, maxHealth]\<close>, as the constructor
  leaves it for every non-negative \<open>maxHealth\<close>, health is in \<open>[0, maxHealth]\<close> after every
  sequence of \<open>takeDamage\<close> and \<open>heal\<close> calls with arbitrary amounts and regions,
  \<open>maxHealth\<close> itself never changing; a call with a zero or negative amount changes
  nothing.
\<close>

theorem health_stays_in_range:
  assumes "keeps_health od" and "0 \<le> health p" and "health p \<le> maxHealth p"
  shows "0 \<le> health (run_calls od p cs)
         \<and> health (run_calls od p cs) \<le> maxHealth (run_calls od p cs)
         \<and> maxHealth (run_calls od p cs) = maxHealth p
         \<and> (\<forall>a k q. a \<le> 0 \<longrightarrow> takeDamage od a k q = q \<and> heal a q = q)
         \<and> (\<forall>i n pos vel mh. 0 \<le> mh \<longrightarrow>
                0 \<le> health (new_Player i n pos vel mh)
                \<and> health (new_Player i n pos vel mh) \<le> maxHealth (new_Player i n pos vel mh))"
proof -
  have noop: "\<forall>a k q. a \<le> 0 \<longrightarrow> takeDamage od a k q = q \<and> heal a q = q"
    by (simp add: takeDamage_def heal_def)
  have fresh: "\<forall>i n pos vel mh. 0 \<le> mh \<longrightarrow>
                0 \<le> health (new_Player i n pos vel mh)
                \<and> health (new_Player i n pos vel mh) \<le> maxHealth (new_Player i n pos vel mh)"
    by (simp add: new_Player_def)
  from run_calls_invariant [OF assms, of cs] noop fresh show ?thesis by simp
qed

theorem health_stays_in_range_witness:
  "keeps_health (None :: (Player \<Rightarrow> Player) option)
   \<and> 0 \<le> health (new_Player ''a'' ''A'' Vector3_ZERO Vector3_ZERO 100)
   \<and> health (new_Player ''a'' ''A'' Vector3_ZERO Vector3_ZERO 100)
       \<le> maxHealth (new_Player ''a'' ''A'' Vector3_ZERO Vector3_ZERO 100)
   \<and> 0 \<le> health (run_calls None (new_Player ''a'' ''A'' Vector3_ZERO Vector3_ZERO 100)
        [TakeDamage 30 (Some ''head''), Heal 500, TakeDamage (- 7) None, TakeDamage 1000 None,
         Heal 5])
   \<and> health (run_calls None (new_Player ''a'' ''A'' Vector3_ZERO Vector3_ZERO 100)
        [TakeDamage 30 (Some ''head''), Heal 500, TakeDamage (- 7) None, TakeDamage 1000 None,
         Heal 5]) \<le> 100"
proof -
  have k: "keeps_health (None :: (Player \<Rightarrow> Player) option)"
    by (simp add: keeps_health_def)
  have lo: "0 \<le> health (new_Player ''a'' ''A'' Vector3_ZERO Vector3_ZERO 100)"
    by (simp add: new_Player_def)
  have hi: "health (new_Player ''a'' ''A'' Vector3_ZERO Vector3_ZERO 100)
       \<le> maxHealth (new_Player ''a'' ''A'' Vector3_ZERO Vector3_ZERO 100)"
    by (simp add: new_Player_def)
  have mh: "maxHealth (new_Player ''a'' ''A'' Vector3_ZERO Vector3_ZERO 100) = 100"
    by (simp add: new_Player_def)
  show ?thesis
    using k lo hi health_stays_in_range [OF k lo hi,
        of "[TakeDamage 30 (Some ''head''), Heal 500, TakeDamage (- 7) None,
             TakeDamage 1000 None, Heal 5]"]
    by (simp add: mh)
qed

text \<open>
  C4 as stated fails for a negative \<open>maxHealth\<close>: a player constructed with \<open>maxHealth\<close>
  -5 starts at health -5, and one call of \<open>takeDamage\<close> with amount 1 leaves health 0,
  above \<open>maxHealth\<close>.
\<close>

theorem health_negative_maxHealth_counterexample:
  "health (new_Player ''a'' ''A'' Vector3_ZERO Vector3_ZERO (- 5)) = - 5
   \<and> health (run_calls None (new_Player ''a'' ''A'' Vector3_ZERO Vector3_ZERO (- 5))
        [TakeDamage 1 None]) = 0
   \<and> maxHealth (run_calls None (new_Player ''a'' ''A'' Vector3_ZERO Vector3_ZERO (- 5))
        [TakeDamage 1 None]) = - 5
   \<and> \<not> health (run_calls None (new_Player ''a'' ''A'' Vector3_ZERO Vector3_ZERO (- 5))
        [TakeDamage 1 None])
       \<le> maxHealth (run_calls None (new_Player ''a'' ''A'' Vector3_ZERO Vector3_ZERO (- 5))
            [TakeDamage 1 None])"
  by (simp add: run_calls_def takeDamage_def new_Player_def Let_def clamp_def Math_round_def
      damage_multiplier_def DAMAGE_MULTIPLIER_DEFAULT_def)

text \<open>
  C10: \<open>heal\<close> on a dead player, or with an amount that is zero or negative, returns the
  player with every field unchanged; on a live player a positive amount changes the
  health field only, to the clamped sum.
\<close>

theorem heal_noop_unless_alive_and_positive:
  "(\<not> isAlive p \<or> amount \<le> 0 \<longrightarrow> heal amount p = p)
   \<and> (isAlive p \<and> 0 < amount \<longrightarrow>
        heal amount p = p\<lparr>health := max 0 (min (health p + amount) (maxHealth p))\<rparr>)"
  by (simp add: heal_def clamp_def)

theorem heal_noop_unless_alive_and_positive_witness:
  "\<not> isAlive ((new_Player ''a'' ''A'' Vector3_ZERO Vector3_ZERO 100)\<lparr>health := 0, isAlive := False\<rparr>)
   \<and> heal 25 ((new_Player ''a'' ''A'' Vector3_ZERO Vector3_ZERO 100)\<lparr>health := 0, isAlive := False\<rparr>)
       = (new_Player ''a'' ''A'' Vector3_ZERO Vector3_ZERO 100)\<lparr>health := 0, isAlive := False\<rparr>
   \<and> (- 3 :: real) \<le> 0
   \<and> heal (- 3) ((new_Player ''a'' ''A'' Vector3_ZERO Vector3_ZERO 100)\<lparr>health := 40\<rparr>)
       = (new_Player ''a'' ''A'' Vector3_ZERO Vector3_ZERO 100)\<lparr>health := 40\<rparr>
   \<and> isAlive ((new_Player ''a'' ''A'' Vector3_ZERO Vector3_ZERO 100)\<lparr>health := 40\<rparr>)
   \<and> (0 :: real) < 25
   \<and> health (heal 25 ((new_Player ''a'' ''A'' Vector3_ZERO Vector3_ZERO 100)\<lparr>health := 40\<rparr>)) = 65"
  using heal_noop_unless_alive_and_positive
      [of "(new_Player ''a'' ''A'' Vector3_ZERO Vector3_ZERO 100)\<lparr>health := 0, isAlive := False\<rparr>" 25]
    heal_noop_unless_alive_and_positive
      [of "(new_Player ''a'' ''A'' Vector3_ZERO Vector3_ZERO 100)\<lparr>health := 40\<rparr>" "- 3"]
    heal_noop_unless_alive_and_positive
      [of "(new_Player ''a'' ''A'' Vector3_ZERO Vector3_ZERO 100)\<lparr>health := 40\<rparr>" 25]
  by (simp add: new_Player_def)

section \<open>Weapon: canFire\<close>

lemma new_Pistol_ammo_consistent: "ammo_consistent new_Pistol"
  by (simp add: ammo_consistent_def new_Pistol_def)

lemma startReload_ammo_consistent: "ammo_consistent w \<Longrightarrow> ammo_consistent (startReload now w)"
  by (simp add: ammo_consistent_def startReload_def)

lemma finishReload_ammo_consistent: "ammo_consistent w \<Longrightarrow> ammo_consistent (finishReload w)"
  by (simp add: ammo_consistent_def finishReload_def)

lemma jsnum_dec_Infinity: "(jsnum_dec a = Infinity) = (a = Infinity)"
  by (cases a) simp_all

lemma Pistol_fire_ammo_consistent:
  "ammo_consistent w \<Longrightarrow> ammo_consistent (snd (Pistol_fire now i pos dir w))"
  by (simp add: Pistol_fire_def Let_def ammo_consistent_def startReload_def jsnum_dec_Infinity)

text \<open>
  C6, as amended: \<open>canFire\<close> is false while reloading, false when \<open>maxAmmo\<close> is not
  \<open>Infinity\<close> and the ammo is at or below zero, false while less than \<open>fireInterval\<close> has
  passed since \<open>lastFireTime\<close>, and true in every other state. In a state where the ammo
  is \<open>Infinity\<close> exactly when \<open>maxAmmo\<close> is, as in every state the constructor, \<open>fire\<close>
  and the reload methods produce, the second case is: the ammo is a finite number at or
  below zero.
\<close>

theorem canFire_cases:
  "(isReloading w \<longrightarrow> \<not> canFire now w)
   \<and> (jsnum_le_zero (ammo w) \<and> maxAmmo w \<noteq> Infinity \<longrightarrow> \<not> canFire now w)
   \<and> (now - lastFireTime w < fireInterval w \<longrightarrow> \<not> canFire now w)
   \<and> (\<not> isReloading w \<and> \<not> (jsnum_le_zero (ammo w) \<and> maxAmmo w \<noteq> Infinity)
        \<and> \<not> now - lastFireTime w < fireInterval w \<longrightarrow> canFire now w)
   \<and> (ammo_consistent w \<longrightarrow>
        (jsnum_le_zero (ammo w) \<and> maxAmmo w \<noteq> Infinity) = (\<exists>a. ammo w = Num a \<and> a \<le> 0))"
proof -
  have "ammo_consistent w \<longrightarrow>
        (jsnum_le_zero (ammo w) \<and> maxAmmo w \<noteq> Infinity) = (\<exists>a. ammo w = Num a \<and> a \<le> 0)"
    by (cases "ammo w") (auto simp add: ammo_consistent_def)
  then show ?thesis by (simp add: canFire_def)
qed

theorem canFire_cases_witness:
  "isReloading (new_Pistol\<lparr>isReloading := True\<rparr>)
   \<and> \<not> canFire 1000 (new_Pistol\<lparr>isReloading := True\<rparr>)
   \<and> jsnum_le_zero (ammo (new_Pistol\<lparr>ammo := Num 0, maxAmmo := Num 12\<rparr>))
   \<and> maxAmmo (new_Pistol\<lparr>ammo := Num 0, maxAmmo := Num 12\<rparr>) \<noteq> Infinity
   \<and> ammo_consistent (new_Pistol\<lparr>ammo := Num 0, maxAmmo := Num 12\<rparr>)
   \<and> \<not> canFire 1000 (new_Pistol\<lparr>ammo := Num 0, maxAmmo := Num 12\<rparr>)
   \<and> 1000 - lastFireTime (new_Pistol\<lparr>lastFireTime := 900\<rparr>)
        < fireInterval (new_Pistol\<lparr>lastFireTime := 900\<rparr>)
   \<and> \<not> canFire 1000 (new_Pistol\<lparr>lastFireTime := 900\<rparr>)
   \<and> \<not> isReloading (new_Pistol\<lparr>lastFireTime := 800\<rparr>)
   \<and> \<not> jsnum_le_zero (ammo (new_Pistol\<lparr>lastFireTime := 800\<rparr>))
   \<and> \<not> 1000 - lastFireTime (new_Pistol\<lparr>lastFireTime := 800\<rparr>)
        < fireInterval (new_Pistol\<lparr>lastFireTime := 800\<rparr>)
   \<and> canFire 1000 (new_Pistol\<lparr>lastFireTime := 800\<rparr>)"
  using canFire_cases [of "new_Pistol\<lparr>isReloading := True\<rparr>" 1000]
    canFire_cases [of "new_Pistol\<lparr>ammo := Num 0, maxAmmo := Num 12\<rparr>" 1000]
    canFire_cases [of "new_Pistol\<lparr>lastFireTime := 900\<rparr>" 1000]
    canFire_cases [of "new_Pistol\<lparr>lastFireTime := 800\<rparr>" 1000]
  by (simp add: new_Pistol_def PISTOL_AMMO_def PISTOL_FIRE_RATE_def ammo_consistent_def)

text \<open>
  C6 as stated fails where the ammo is a finite number but \<open>maxAmmo\<close> is \<open>Infinity\<close>: with
  ammo 0, not reloading and the interval elapsed, \<open>canFire\<close> is true.
\<close>

theorem canFire_unbounded_magazine_counterexample:
  "ammo (new_Pistol\<lparr>ammo := Num 0\<rparr>) = Num 0
   \<and> jsnum_le_zero (ammo (new_Pistol\<lparr>ammo := Num 0\<rparr>))
   \<and> maxAmmo (new_Pistol\<lparr>ammo := Num 0\<rparr>) = Infinity
   \<and> \<not> isReloading (new_Pistol\<lparr>ammo := Num 0\<rparr>)
   \<and> \<not> 1000 - lastFireTime (new_Pistol\<lparr>ammo := Num 0\<rparr>) < fireInterval (new_Pistol\<lparr>ammo := Num 0\<rparr>)
   \<and> canFire 1000 (new_Pistol\<lparr>ammo := Num 0\<rparr>)"
  by (simp add: canFire_def new_Pistol_def PISTOL_AMMO_def PISTOL_FIRE_RATE_def)

lemma magnitude_along_x: "Vector3_magnitude (Vector3 a 0 0) = \<bar>a\<bar>"
  by (simp add: Vector3_magnitude_def)

section \<open>Projectile: range\<close>

lemma pow2_powr: "pow2 e = 2 powr (of_int e)"
proof (cases "0 \<le> e")
  case True
  have "2 powr (of_int e) = 2 powr (real (nat e))" using True by simp
  also have "\<dots> = (2::real) ^ nat e" by (simp add: powr_realpow)
  finally show ?thesis using True by (simp add: pow2_def)
next
  case False
  have "2 powr (of_int e) = 2 powr (- real (nat (- e)))" using False by simp
  also have "\<dots> = 1 / 2 powr (real (nat (- e)))" by (simp add: powr_minus_divide)
  also have "\<dots> = 1 / (2::real) ^ nat (- e)" by (simp add: powr_realpow)
  finally show ?thesis using False by (simp add: pow2_def)
qed

lemma pow2_pos: "0 < pow2 e"
  by (simp add: pow2_def)

lemma to_double_at:
  assumes "pow2 e \<le> \<bar>v\<bar>" and "\<bar>v\<bar> < pow2 (e + 1)" and "- 1022 \<le> e"
  shows "to_double v = of_int (round_half_even (v / pow2 (e - 52))) * pow2 (e - 52)"
proof -
  have pos: "0 < \<bar>v\<bar>" using assms(1) pow2_pos [of e] by linarith
  have "\<lfloor>log 2 \<bar>v\<bar>\<rfloor> = e"
    using assms(1,2) pos
    by (simp add: floor_log_eq_powr_iff pow2_powr)
  then have "double_quantum v = pow2 (e - 52)"
    using assms(3) by (simp add: double_quantum_def)
  moreover have "v \<noteq> 0" using pos by auto
  ultimately show ?thesis by (simp add: to_double_def)
qed

lemma round_half_even_int: "round_half_even (of_int j) = j"
  by (simp add: round_half_even_def)

lemma to_double_int:
  assumes "\<bar>m\<bar> < 2 ^ 53"
  shows "to_double (of_int m) = of_int m"
proof (cases "m = 0")
  case True
  then show ?thesis by (simp add: to_double_def)
next
  case False
  define v :: real where "v = of_int m"
  define e where "e = \<lfloor>log 2 \<bar>v\<bar>\<rfloor>"
  have one: "1 \<le> \<bar>v\<bar>" using False by (simp add: v_def)
  have lt: "\<bar>v\<bar> < 2 ^ 53"
  proof -
    have "real_of_int \<bar>m\<bar> < real_of_int (2 ^ 53)" using assms by (simp only: of_int_less_iff)
    then show ?thesis by (simp add: v_def)
  qed
  have br: "2 powr (of_int e) \<le> \<bar>v\<bar>" "\<bar>v\<bar> < 2 powr (of_int (e + 1))"
    using one floor_log_eq_powr_iff [of "\<bar>v\<bar>" 2 e] by (simp_all add: e_def)
  have e0: "0 \<le> e"
  proof (rule ccontr)
    assume "\<not> 0 \<le> e"
    then have "of_int (e + 1) \<le> (0::real)" by simp
    then have "2 powr (of_int (e + 1)) \<le> (2::real) powr 0" by (intro powr_mono) simp_all
    with br(2) one show False by simp
  qed
  have e52: "e \<le> 52"
  proof (rule ccontr)
    assume "\<not> e \<le> 52"
    then have "(53::real) \<le> of_int e" by simp
    then have "(2::real) powr 53 \<le> 2 powr (of_int e)" by (intro powr_mono) simp_all
    moreover have "(2::real) powr 53 = 2 ^ 53" by (simp add: powr_numeral)
    ultimately show False using br(1) lt by linarith
  qed
  have at: "to_double v = of_int (round_half_even (v / pow2 (e - 52))) * pow2 (e - 52)"
    using br e0 by (intro to_double_at) (simp_all add: pow2_powr)
  define k where "k = nat (52 - e)"
  have q: "pow2 (e - 52) = 1 / 2 ^ k"
    using e52 by (cases "e = 52") (simp_all add: pow2_def k_def)
  have "v / pow2 (e - 52) = of_int (m * 2 ^ k)" by (simp add: q v_def)
  then have "round_half_even (v / pow2 (e - 52)) = m * 2 ^ k"
    by (simp only: round_half_even_int)
  then have "to_double v = of_int (m * 2 ^ k) * (1 / 2 ^ k)" using at q by simp
  then show ?thesis by (simp add: v_def)
qed

lemma Projectile_update_velocity: "velocity (Projectile_update dt p) = velocity p"
  by (simp add: Projectile_update_def Let_def)

lemma Projectile_update_range: "proj_range (Projectile_update dt p) = proj_range p"
  by (simp add: Projectile_update_def Let_def)

lemma Projectile_update_distance:
  "distanceTraveled (Projectile_update dt p)
     = to_double (distanceTraveled p + to_double (Vector3_magnitude_double (velocity p) * dt))"
  by (simp add: Projectile_update_def Let_def)

lemma Projectile_update_mark:
  "markForRemoval (Projectile_update dt p)
     = (markForRemoval p \<or> proj_range p \<le> distanceTraveled (Projectile_update dt p))"
  by (simp add: Projectile_update_def Let_def)

lemma updates_velocity: "velocity ((Projectile_update dt ^^ n) p) = velocity p"
  by (induction n) (simp_all add: Projectile_update_velocity)

lemma updates_range: "proj_range ((Projectile_update dt ^^ n) p) = proj_range p"
  by (induction n) (simp_all add: Projectile_update_range)

lemma updates_mark:
  assumes "\<not> markForRemoval p"
  shows "markForRemoval ((Projectile_update dt ^^ n) p)
           = (\<exists>k. 1 \<le> k \<and> k \<le> n \<and>
                proj_range p \<le> distanceTraveled ((Projectile_update dt ^^ k) p))"
proof (induction n)
  case 0
  then show ?case using assms by simp
next
  case (Suc n)
  have "markForRemoval ((Projectile_update dt ^^ Suc n) p)
          = (markForRemoval ((Projectile_update dt ^^ n) p)
             \<or> proj_range p \<le> distanceTraveled ((Projectile_update dt ^^ Suc n) p))"
    using Projectile_update_mark [of dt "(Projectile_update dt ^^ n) p"]
    by (simp add: updates_range)
  also have "\<dots> = (\<exists>k. 1 \<le> k \<and> k \<le> Suc n \<and>
                proj_range p \<le> distanceTraveled ((Projectile_update dt ^^ k) p))"
    unfolding Suc.IH
    by (metis le_Suc_eq le_add1 plus_1_eq_Suc)
  finally show ?case .
qed

lemma sums_exact_iff:
  "sums_exact d0 c K
     = (to_double c = c \<and> (\<forall>k\<le>K. to_double (d0 + real k * c) = d0 + real k * c))"
  by (auto simp add: sums_exact_def list_all_iff less_Suc_eq_le)

lemma updates_distance_exact:
  assumes "sums_exact (distanceTraveled p) (Vector3_magnitude_double (velocity p) * dt) K"
  shows "n \<le> K \<Longrightarrow> distanceTraveled ((Projectile_update dt ^^ n) p)
           = distanceTraveled p + real n * (Vector3_magnitude_double (velocity p) * dt)"
proof (induction n)
  case 0
  then show ?case by simp
next
  case (Suc n)
  let ?c = "Vector3_magnitude_double (velocity p) * dt"
  from assms have c: "to_double ?c = ?c"
    and all: "\<forall>k\<le>K. to_double (distanceTraveled p + real k * ?c) = distanceTraveled p + real k * ?c"
    by (simp_all add: sums_exact_iff)
  from all Suc.prems
  have s: "to_double (distanceTraveled p + real (Suc n) * ?c) = distanceTraveled p + real (Suc n) * ?c"
    by blast
  have ih: "distanceTraveled ((Projectile_update dt ^^ n) p) = distanceTraveled p + real n * ?c"
    using Suc by simp
  have "distanceTraveled ((Projectile_update dt ^^ Suc n) p)
          = to_double (distanceTraveled p + real n * ?c + ?c)"
    by (simp add: Projectile_update_distance updates_velocity ih c)
  also have "distanceTraveled p + real n * ?c + ?c = distanceTraveled p + real (Suc n) * ?c"
    by (simp add: algebra_simps)
  finally show ?case using s by simp
qed

lemma reach_iff_ceiling:
  fixes c :: real
  assumes "0 < c" and "d0 < R"
  shows "(R \<le> d0 + real n * c) = (nat \<lceil>(R - d0) / c\<rceil> \<le> n)"
proof -
  have "(R \<le> d0 + real n * c) = ((R - d0) / c \<le> real n)"
    using assms(1) by (simp add: pos_divide_le_eq algebra_simps)
  also have "\<dots> = (\<lceil>(R - d0) / c\<rceil> \<le> int n)"
    by (simp add: ceiling_le_iff)
  also have "\<dots> = (nat \<lceil>(R - d0) / c\<rceil> \<le> n)"
    by linarith
  finally show ?thesis .
qed

lemma magnitude_double_60: "Vector3_magnitude_double (Vector3 60 0 0) = 60"
proof -
  have a: "to_double 3600 = 3600" using to_double_int [of 3600] by simp
  have b: "to_double 60 = 60" using to_double_int [of 60] by simp
  have z: "to_double 0 = 0" by (simp add: to_double_def)
  have r: "sqrt 3600 = 60" using real_sqrt_abs2 [of 60] by simp
  show ?thesis by (simp add: Vector3_magnitude_double_def a b z r)
qed

lemma long_bullet_sums_exact: "sums_exact 0 30 5"
proof -
  have a: "to_double 30 = 30" using to_double_int [of 30] by simp
  have "to_double (0 + real k * 30) = 0 + real k * 30" if "k \<le> 5" for k
  proof -
    have "\<bar>int k * 30\<bar> < 2 ^ 53" using that by simp
    from to_double_int [OF this] show ?thesis by simp
  qed
  with a show ?thesis by (simp add: sums_exact_iff)
qed

text \<open>
  C7, as amended: every call of \<open>update\<close> adds the product of speed and step, rounded to a
  double, to \<open>distanceTraveled\<close>, and rounds the sum; on a projectile not yet flagged,
  \<open>markForRemoval\<close> is set after \<open>n\<close> calls exactly when one of them left
  \<open>distanceTraveled\<close> at or above the range, so the first call that does sets it. As long
  as the product and the sums are doubles as they stand, so that nothing is rounded, that
  call is call \<open>\<lceil>(R - d0) / (S * dt)\<rceil>\<close>, which is at least 1 and at most
  \<open>\<lceil>R / (S * dt)\<rceil>\<close>.
\<close>

theorem projectile_range_termination:
  assumes "0 < S" and "0 < dt" and "0 < R"
    and "Vector3_magnitude_double (velocity p) = S" and "proj_range p = R"
    and "0 \<le> distanceTraveled p" and "distanceTraveled p < R" and "\<not> markForRemoval p"
  shows "distanceTraveled (Projectile_update dt p)
           = to_double (distanceTraveled p + to_double (S * dt))
     \<and> (\<forall>n. markForRemoval ((Projectile_update dt ^^ n) p)
              = (\<exists>k. 1 \<le> k \<and> k \<le> n \<and> R \<le> distanceTraveled ((Projectile_update dt ^^ k) p)))
     \<and> (\<forall>K n. sums_exact (distanceTraveled p) (S * dt) K \<and> n \<le> K \<longrightarrow>
            distanceTraveled ((Projectile_update dt ^^ n) p) = distanceTraveled p + real n * (S * dt)
            \<and> (R \<le> distanceTraveled ((Projectile_update dt ^^ n) p))
                = (nat \<lceil>(R - distanceTraveled p) / (S * dt)\<rceil> \<le> n)
            \<and> markForRemoval ((Projectile_update dt ^^ n) p)
                = (nat \<lceil>(R - distanceTraveled p) / (S * dt)\<rceil> \<le> n))
     \<and> 1 \<le> nat \<lceil>(R - distanceTraveled p) / (S * dt)\<rceil>
     \<and> nat \<lceil>(R - distanceTraveled p) / (S * dt)\<rceil> \<le> nat \<lceil>R / (S * dt)\<rceil>"
proof -
  let ?d0 = "distanceTraveled p"
  let ?M = "nat \<lceil>(R - ?d0) / (S * dt)\<rceil>"
  have c: "0 < S * dt" using assms(1,2) by simp
  have one: "distanceTraveled (Projectile_update dt p) = to_double (?d0 + to_double (S * dt))"
    by (simp add: Projectile_update_distance assms(4))
  have mark: "\<forall>n. markForRemoval ((Projectile_update dt ^^ n) p)
              = (\<exists>k. 1 \<le> k \<and> k \<le> n \<and> R \<le> distanceTraveled ((Projectile_update dt ^^ k) p))"
    using updates_mark [OF assms(8), where dt = dt] by (simp add: assms(5))
  have pos: "0 < (R - ?d0) / (S * dt)" using c assms(7) by simp
  then have M1: "1 \<le> ?M" by linarith
  have "(R - ?d0) / (S * dt) \<le> R / (S * dt)"
    using c assms(6) by (simp add: divide_le_cancel)
  then have "\<lceil>(R - ?d0) / (S * dt)\<rceil> \<le> \<lceil>R / (S * dt)\<rceil>"
    by (rule ceiling_mono)
  then have le: "?M \<le> nat \<lceil>R / (S * dt)\<rceil>"
    by (rule nat_mono)
  have exact: "\<forall>K n. sums_exact ?d0 (S * dt) K \<and> n \<le> K \<longrightarrow>
            distanceTraveled ((Projectile_update dt ^^ n) p) = ?d0 + real n * (S * dt)
            \<and> (R \<le> distanceTraveled ((Projectile_update dt ^^ n) p)) = (?M \<le> n)
            \<and> markForRemoval ((Projectile_update dt ^^ n) p) = (?M \<le> n)"
  proof (intro allI impI)
    fix K n
    assume a: "sums_exact ?d0 (S * dt) K \<and> n \<le> K"
    then have ex: "sums_exact ?d0 (Vector3_magnitude_double (velocity p) * dt) K"
      by (simp add: assms(4))
    have dist: "distanceTraveled ((Projectile_update dt ^^ k) p) = ?d0 + real k * (S * dt)"
      if "k \<le> K" for k
      using updates_distance_exact [OF ex that] by (simp add: assms(4))
    have reach: "(R \<le> distanceTraveled ((Projectile_update dt ^^ k) p)) = (?M \<le> k)"
      if "k \<le> K" for k
      using dist [OF that] reach_iff_ceiling [OF c assms(7), of k] by simp
    have "markForRemoval ((Projectile_update dt ^^ n) p)
            = (\<exists>k. 1 \<le> k \<and> k \<le> n \<and> R \<le> distanceTraveled ((Projectile_update dt ^^ k) p))"
      using mark by blast
    also have "\<dots> = (\<exists>k. 1 \<le> k \<and> k \<le> n \<and> ?M \<le> k)"
      using reach a by (meson le_trans)
    also have "\<dots> = (?M \<le> n)"
      using M1 by (metis le_trans order_refl)
    finally have m: "markForRemoval ((Projectile_update dt ^^ n) p) = (?M \<le> n)" .
    from a dist [of n] reach [of n] m
    show "distanceTraveled ((Projectile_update dt ^^ n) p) = ?d0 + real n * (S * dt)
            \<and> (R \<le> distanceTraveled ((Projectile_update dt ^^ n) p)) = (?M \<le> n)
            \<and> markForRemoval ((Projectile_update dt ^^ n) p) = (?M \<le> n)"
      by simp
  qed
  from one mark exact M1 le show ?thesis by (intro conjI)
qed

theorem projectile_range_termination_witness:
  "(0::real) < 60 \<and> (0::real) < 1 / 2 \<and> (0::real) < 100
   \<and> Vector3_magnitude_double (velocity long_bullet) = 60
   \<and> proj_range long_bullet = 100
   \<and> distanceTraveled long_bullet = 0
   \<and> \<not> markForRemoval long_bullet
   \<and> sums_exact 0 30 5
   \<and> nat \<lceil>(100 - 0) / (60 * (1 / 2) :: real)\<rceil> = 4
   \<and> distanceTraveled ((Projectile_update (1 / 2) ^^ 3) long_bullet) = 90
   \<and> \<not> markForRemoval ((Projectile_update (1 / 2) ^^ 3) long_bullet)
   \<and> distanceTraveled ((Projectile_update (1 / 2) ^^ 4) long_bullet) = 120
   \<and> markForRemoval ((Projectile_update (1 / 2) ^^ 4) long_bullet)"
proof -
  let ?p = long_bullet
  have m: "Vector3_magnitude_double (velocity ?p) = 60"
    by (simp add: long_bullet_def new_Projectile_def magnitude_double_60)
  have r: "proj_range ?p = 100" and d: "distanceTraveled ?p = 0" and k: "\<not> markForRemoval ?p"
    by (simp_all add: long_bullet_def new_Projectile_def)
  have d0: "0 \<le> distanceTraveled ?p" and d1: "distanceTraveled ?p < 100"
    by (simp_all add: d)
  have ex: "sums_exact (distanceTraveled ?p) (60 * (1 / 2)) 5"
    using long_bullet_sums_exact by (simp add: d)
  have c: "nat \<lceil>(100 - distanceTraveled ?p) / (60 * (1 / 2))\<rceil> = 4"
    by (simp add: d)
  have p1: "(0::real) < 60" and p2: "(0::real) < 1 / 2" and p3: "(0::real) < 100"
    by simp_all
  note t = projectile_range_termination [of 60 "1 / 2" 100 ?p, OF p1 p2 p3 m r d0 d1 k]
  have main: "\<forall>K n. sums_exact (distanceTraveled ?p) (60 * (1 / 2)) K \<and> n \<le> K \<longrightarrow>
            distanceTraveled ((Projectile_update (1 / 2) ^^ n) ?p)
              = distanceTraveled ?p + real n * (60 * (1 / 2))
            \<and> markForRemoval ((Projectile_update (1 / 2) ^^ n) ?p) = (4 \<le> n)"
    using t unfolding c by blast
  have three: "distanceTraveled ((Projectile_update (1 / 2) ^^ 3) ?p)
              = distanceTraveled ?p + real 3 * (60 * (1 / 2))
            \<and> markForRemoval ((Projectile_update (1 / 2) ^^ 3) ?p) = (4 \<le> (3::nat))"
    using main ex by (meson numeral_le_iff semiring_norm(68,72,73) le_numeral_extra(4) order_refl le_trans nat_le_linear)
  have four: "distanceTraveled ((Projectile_update (1 / 2) ^^ 4) ?p)
              = distanceTraveled ?p + real 4 * (60 * (1 / 2))
            \<and> markForRemoval ((Projectile_update (1 / 2) ^^ 4) ?p) = (4 \<le> (4::nat))"
    using main ex by (meson numeral_le_iff semiring_norm(68,72,73) le_numeral_extra(4) order_refl le_trans nat_le_linear)
  have c': "nat \<lceil>(100 - 0) / (60 * (1 / 2) :: real)\<rceil> = 4" by simp
  from three four m r d k long_bullet_sums_exact c' show ?thesis by (simp add: d)
qed

lemma double_0_01_is_0_01: "to_double (1 / 100) = double_0_01"
  using to_double_at [of "- 7" "1 / 100"]
  by (simp add: pow2_def round_half_even_def double_0_01_def)

lemma range_step_product: "to_double (60 * double_0_01) = 5404319552844595 / 9007199254740992"
  using to_double_at [of "- 1" "60 * double_0_01"]
  by (simp add: pow2_def round_half_even_def double_0_01_def)

lemma range_sums:
  "to_double (0 + 5404319552844595 / 9007199254740992) = 5404319552844595 / 9007199254740992"
  "to_double (5404319552844595 / 9007199254740992 + 5404319552844595 / 9007199254740992) = 5404319552844595 / 4503599627370496"
  "to_double (5404319552844595 / 4503599627370496 + 5404319552844595 / 9007199254740992) = 2026619832316723 / 1125899906842624"
  "to_double (2026619832316723 / 1125899906842624 + 5404319552844595 / 9007199254740992) = 5404319552844595 / 2251799813685248"
  "to_double (5404319552844595 / 2251799813685248 + 5404319552844595 / 9007199254740992) = 3"
  "to_double (3 + 5404319552844595 / 9007199254740992) = 8106479329266893 / 2251799813685248"
  "to_double (8106479329266893 / 2251799813685248 + 5404319552844595 / 9007199254740992) = 4728779608739021 / 1125899906842624"
  "to_double (4728779608739021 / 1125899906842624 + 5404319552844595 / 9007199254740992) = 5404319552844595 / 1125899906842624"
  "to_double (5404319552844595 / 1125899906842624 + 5404319552844595 / 9007199254740992) = 6079859496950169 / 1125899906842624"
  "to_double (6079859496950169 / 1125899906842624 + 5404319552844595 / 9007199254740992) = 6755399441055743 / 1125899906842624"
  "to_double (6755399441055743 / 1125899906842624 + 5404319552844595 / 9007199254740992) = 7430939385161317 / 1125899906842624"
proof -
  show "to_double (0 + 5404319552844595 / 9007199254740992) = 5404319552844595 / 9007199254740992"
    using to_double_at [of "- 1" "0 + 5404319552844595 / 9007199254740992"]
    by (simp add: pow2_def round_half_even_def)
  show "to_double (5404319552844595 / 9007199254740992 + 5404319552844595 / 9007199254740992) = 5404319552844595 / 4503599627370496"
    using to_double_at [of "0" "5404319552844595 / 9007199254740992 + 5404319552844595 / 9007199254740992"]
    by (simp add: pow2_def round_half_even_def)
  show "to_double (5404319552844595 / 4503599627370496 + 5404319552844595 / 9007199254740992) = 2026619832316723 / 1125899906842624"
    using to_double_at [of "0" "5404319552844595 / 4503599627370496 + 5404319552844595 / 9007199254740992"]
    by (simp add: pow2_def round_half_even_def)
  show "to_double (2026619832316723 / 1125899906842624 + 5404319552844595 / 9007199254740992) = 5404319552844595 / 2251799813685248"
    using to_double_at [of "1" "2026619832316723 / 1125899906842624 + 5404319552844595 / 9007199254740992"]
    by (simp add: pow2_def round_half_even_def)
  show "to_double (5404319552844595 / 2251799813685248 + 5404319552844595 / 9007199254740992) = 3"
    using to_double_at [of "1" "5404319552844595 / 2251799813685248 + 5404319552844595 / 9007199254740992"]
    by (simp add: pow2_def round_half_even_def)
  show "to_double (3 + 5404319552844595 / 9007199254740992) = 8106479329266893 / 2251799813685248"
    using to_double_at [of "1" "3 + 5404319552844595 / 9007199254740992"]
    by (simp add: pow2_def round_half_even_def)
  show "to_double (8106479329266893 / 2251799813685248 + 5404319552844595 / 9007199254740992) = 4728779608739021 / 1125899906842624"
    using to_double_at [of "2" "8106479329266893 / 2251799813685248 + 5404319552844595 / 9007199254740992"]
    by (simp add: pow2_def round_half_even_def)
  show "to_double (4728779608739021 / 1125899906842624 + 5404319552844595 / 9007199254740992) = 5404319552844595 / 1125899906842624"
    using to_double_at [of "2" "4728779608739021 / 1125899906842624 + 5404319552844595 / 9007199254740992"]
    by (simp add: pow2_def round_half_even_def)
  show "to_double (5404319552844595 / 1125899906842624 + 5404319552844595 / 9007199254740992) = 6079859496950169 / 1125899906842624"
    using to_double_at [of "2" "5404319552844595 / 1125899906842624 + 5404319552844595 / 9007199254740992"]
    by (simp add: pow2_def round_half_even_def)
  show "to_double (6079859496950169 / 1125899906842624 + 5404319552844595 / 9007199254740992) = 6755399441055743 / 1125899906842624"
    using to_double_at [of "2" "6079859496950169 / 1125899906842624 + 5404319552844595 / 9007199254740992"]
    by (simp add: pow2_def round_half_even_def)
  show "to_double (6755399441055743 / 1125899906842624 + 5404319552844595 / 9007199254740992) = 7430939385161317 / 1125899906842624"
    using to_double_at [of "2" "6755399441055743 / 1125899906842624 + 5404319552844595 / 9007199254740992"]
    by (simp add: pow2_def round_half_even_def)
qed

lemma range_bullet_step:
  "Projectile_update double_0_01 (range_bullet\<lparr>distanceTraveled := d\<rparr>)
     = (if 6 \<le> to_double (d + 5404319552844595 / 9007199254740992)
        then range_bullet\<lparr>distanceTraveled := to_double (d + 5404319552844595 / 9007199254740992),
                          markForRemoval := True\<rparr>
        else range_bullet\<lparr>distanceTraveled := to_double (d + 5404319552844595 / 9007199254740992)\<rparr>)"
proof -
  have v: "velocity (range_bullet\<lparr>distanceTraveled := d\<rparr>) = Vector3 60 0 0"
    and r: "proj_range range_bullet = 6"
    by (simp_all add: range_bullet_def new_Projectile_def)
  show ?thesis
    by (simp add: Projectile_update_def Let_def v r magnitude_double_60 range_step_product)
qed

lemma range_bullet_step_to:
  assumes "to_double (d + 5404319552844595 / 9007199254740992) = d'"
  shows "Projectile_update double_0_01 (range_bullet\<lparr>distanceTraveled := d\<rparr>)
     = (if 6 \<le> d' then range_bullet\<lparr>distanceTraveled := d', markForRemoval := True\<rparr>
        else range_bullet\<lparr>distanceTraveled := d'\<rparr>)"
  by (simp only: range_bullet_step assms)

lemma range_bullet_steps:
  "Projectile_update double_0_01 (range_bullet\<lparr>distanceTraveled := 0\<rparr>)
     = range_bullet\<lparr>distanceTraveled := 5404319552844595 / 9007199254740992\<rparr>"
  "Projectile_update double_0_01 (range_bullet\<lparr>distanceTraveled := 5404319552844595 / 9007199254740992\<rparr>)
     = range_bullet\<lparr>distanceTraveled := 5404319552844595 / 4503599627370496\<rparr>"
  "Projectile_update double_0_01 (range_bullet\<lparr>distanceTraveled := 5404319552844595 / 4503599627370496\<rparr>)
     = range_bullet\<lparr>distanceTraveled := 2026619832316723 / 1125899906842624\<rparr>"
  "Projectile_update double_0_01 (range_bullet\<lparr>distanceTraveled := 2026619832316723 / 1125899906842624\<rparr>)
     = range_bullet\<lparr>distanceTraveled := 5404319552844595 / 2251799813685248\<rparr>"
  "Projectile_update double_0_01 (range_bullet\<lparr>distanceTraveled := 5404319552844595 / 2251799813685248\<rparr>)
     = range_bullet\<lparr>distanceTraveled := 3\<rparr>"
  "Projectile_update double_0_01 (range_bullet\<lparr>distanceTraveled := 3\<rparr>)
     = range_bullet\<lparr>distanceTraveled := 8106479329266893 / 2251799813685248\<rparr>"
  "Projectile_update double_0_01 (range_bullet\<lparr>distanceTraveled := 8106479329266893 / 2251799813685248\<rparr>)
     = range_bullet\<lparr>distanceTraveled := 4728779608739021 / 1125899906842624\<rparr>"
  "Projectile_update double_0_01 (range_bullet\<lparr>distanceTraveled := 4728779608739021 / 1125899906842624\<rparr>)
     = range_bullet\<lparr>distanceTraveled := 5404319552844595 / 1125899906842624\<rparr>"
  "Projectile_update double_0_01 (range_bullet\<lparr>distanceTraveled := 5404319552844595 / 1125899906842624\<rparr>)
     = range_bullet\<lparr>distanceTraveled := 6079859496950169 / 1125899906842624\<rparr>"
  "Projectile_update double_0_01 (range_bullet\<lparr>distanceTraveled := 6079859496950169 / 1125899906842624\<rparr>)
     = range_bullet\<lparr>distanceTraveled := 6755399441055743 / 1125899906842624\<rparr>"
  "Projectile_update double_0_01 (range_bullet\<lparr>distanceTraveled := 6755399441055743 / 1125899906842624\<rparr>)
     = range_bullet\<lparr>distanceTraveled := 7430939385161317 / 1125899906842624, markForRemoval := True\<rparr>"
proof -
  show "Projectile_update double_0_01 (range_bullet\<lparr>distanceTraveled := 0\<rparr>)
     = range_bullet\<lparr>distanceTraveled := 5404319552844595 / 9007199254740992\<rparr>"
    using range_sums(1) [THEN range_bullet_step_to] by simp
  show "Projectile_update double_0_01 (range_bullet\<lparr>distanceTraveled := 5404319552844595 / 9007199254740992\<rparr>)
     = range_bullet\<lparr>distanceTraveled := 5404319552844595 / 4503599627370496\<rparr>"
    using range_sums(2) [THEN range_bullet_step_to] by simp
  show "Projectile_update double_0_01 (range_bullet\<lparr>distanceTraveled := 5404319552844595 / 4503599627370496\<rparr>)
     = range_bullet\<lparr>distanceTraveled := 2026619832316723 / 1125899906842624\<rparr>"
    using range_sums(3) [THEN range_bullet_step_to] by simp
  show "Projectile_update double_0_01 (range_bullet\<lparr>distanceTraveled := 2026619832316723 / 1125899906842624\<rparr>)
     = range_bullet\<lparr>distanceTraveled := 5404319552844595 / 2251799813685248\<rparr>"
    using range_sums(4) [THEN range_bullet_step_to] by simp
  show "Projectile_update double_0_01 (range_bullet\<lparr>distanceTraveled := 5404319552844595 / 2251799813685248\<rparr>)
     = range_bullet\<lparr>distanceTraveled := 3\<rparr>"
    using range_sums(5) [THEN range_bullet_step_to] by simp
  show "Projectile_update double_0_01 (range_bullet\<lparr>distanceTraveled := 3\<rparr>)
     = range_bullet\<lparr>distanceTraveled := 8106479329266893 / 2251799813685248\<rparr>"
    using range_sums(6) [THEN range_bullet_step_to] by simp
  show "Projectile_update double_0_01 (range_bullet\<lparr>distanceTraveled := 8106479329266893 / 2251799813685248\<rparr>)
     = range_bullet\<lparr>distanceTraveled := 4728779608739021 / 1125899906842624\<rparr>"
    using range_sums(7) [THEN range_bullet_step_to] by simp
  show "Projectile_update double_0_01 (range_bullet\<lparr>distanceTraveled := 4728779608739021 / 1125899906842624\<rparr>)
     = range_bullet\<lparr>distanceTraveled := 5404319552844595 / 1125899906842624\<rparr>"
    using range_sums(8) [THEN range_bullet_step_to] by simp
  show "Projectile_update double_0_01 (range_bullet\<lparr>distanceTraveled := 5404319552844595 / 1125899906842624\<rparr>)
     = range_bullet\<lparr>distanceTraveled := 6079859496950169 / 1125899906842624\<rparr>"
    using range_sums(9) [THEN range_bullet_step_to] by simp
  show "Projectile_update double_0_01 (range_bullet\<lparr>distanceTraveled := 6079859496950169 / 1125899906842624\<rparr>)
     = range_bullet\<lparr>distanceTraveled := 6755399441055743 / 1125899906842624\<rparr>"
    using range_sums(10) [THEN range_bullet_step_to] by simp
  show "Projectile_update double_0_01 (range_bullet\<lparr>distanceTraveled := 6755399441055743 / 1125899906842624\<rparr>)
     = range_bullet\<lparr>distanceTraveled := 7430939385161317 / 1125899906842624, markForRemoval := True\<rparr>"
    using range_sums(11) [THEN range_bullet_step_to] by simp
qed

text \<open>
  C7 as stated fails once the sums are rounded: for range 6, speed 60 and the step 0.01
  the bound \<open>\<lceil>R / (S * dt)\<rceil>\<close> is 10, but ten additions of the double 0.6 leave
  5.999999999999999, below the range, and the flag is set by call 11.
\<close>

theorem projectile_range_rounding_counterexample:
  "to_double (1 / 100) = double_0_01
   \<and> Vector3_magnitude_double (velocity range_bullet) = 60
   \<and> proj_range range_bullet = 6
   \<and> distanceTraveled range_bullet = 0
   \<and> \<not> markForRemoval range_bullet
   \<and> nat \<lceil>6 / (60 * double_0_01)\<rceil> = 10
   \<and> distanceTraveled ((Projectile_update double_0_01 ^^ 10) range_bullet)
       = 6755399441055743 / 1125899906842624
   \<and> distanceTraveled ((Projectile_update double_0_01 ^^ 10) range_bullet) < 6
   \<and> \<not> markForRemoval ((Projectile_update double_0_01 ^^ 10) range_bullet)
   \<and> markForRemoval ((Projectile_update double_0_01 ^^ 11) range_bullet)"
proof -
  have start: "range_bullet = range_bullet\<lparr>distanceTraveled := 0\<rparr>"
    and v: "velocity range_bullet = Vector3 60 0 0" and r: "proj_range range_bullet = 6"
    and d: "distanceTraveled range_bullet = 0" and m: "\<not> markForRemoval range_bullet"
    by (simp_all add: range_bullet_def new_Projectile_def)
  have ten: "(Projectile_update double_0_01 ^^ 10) (range_bullet\<lparr>distanceTraveled := 0\<rparr>)
               = range_bullet\<lparr>distanceTraveled := 6755399441055743 / 1125899906842624\<rparr>"
    by (simp add: eval_nat_numeral range_bullet_steps)
  have eleven: "(Projectile_update double_0_01 ^^ 11) (range_bullet\<lparr>distanceTraveled := 0\<rparr>)
               = range_bullet\<lparr>distanceTraveled := 7430939385161317 / 1125899906842624,
                              markForRemoval := True\<rparr>"
    by (simp add: eval_nat_numeral range_bullet_steps)
  have n: "nat \<lceil>6 / (60 * double_0_01)\<rceil> = 10"
    by (simp add: double_0_01_def)
  have ten': "(Projectile_update double_0_01 ^^ 10) range_bullet
               = range_bullet\<lparr>distanceTraveled := 6755399441055743 / 1125899906842624\<rparr>"
    using ten start by simp
  have eleven': "(Projectile_update double_0_01 ^^ 11) range_bullet
               = range_bullet\<lparr>distanceTraveled := 7430939385161317 / 1125899906842624,
                              markForRemoval := True\<rparr>"
    using eleven start by simp
  show ?thesis
    unfolding ten' eleven'
    using double_0_01_is_0_01 n
    by (simp add: magnitude_double_60 v r d m)
qed

section \<open>CollisionSystem: clamping into the world bounds\<close>

lemma resolve_axis_inside:
  "\<not> aMin < lo \<Longrightarrow> \<not> aMax > hi \<Longrightarrow> resolve_axis aMin aMax lo hi atMin atMax pos vel = (pos, vel)"
  by (simp add: resolve_axis_def)

lemma resolve_axis_lands_inside:
  assumes "lo + a \<le> hi - b"
  shows "\<not> fst (resolve_axis (pos - a) (pos + b) lo hi (lo + a) (hi - b) pos vel) - a < lo
       \<and> \<not> fst (resolve_axis (pos - a) (pos + b) lo hi (lo + a) (hi - b) pos vel) + b > hi"
  using assms by (simp add: resolve_axis_def)

lemma resolveWorldBoundsCollision_fst:
  "fst (resolveWorldBoundsCollision d e p mb) =
     Vector3
       (fst (resolve_axis (vx p - entityHalfWidth d) (vx p + entityHalfWidth d)
               (vx (bmin mb)) (vx (bmax mb))
               (vx (bmin mb) + entityHalfWidth d) (vx (bmax mb) - entityHalfWidth d)
               (vx p) (vx (velocity e))))
       (fst (resolve_axis (vy p - 0) (vy p + entityHeight d)
               (vy (bmin mb)) (vy (bmax mb))
               (vy (bmin mb) + 0) (vy (bmax mb) - entityHeight d)
               (vy p) (vy (velocity e))))
       (fst (resolve_axis (vz p - entityHalfDepth d) (vz p + entityHalfDepth d)
               (vz (bmin mb)) (vz (bmax mb))
               (vz (bmin mb) + entityHalfDepth d) (vz (bmax mb) - entityHalfDepth d)
               (vz p) (vz (velocity e))))"
  by (simp add: resolveWorldBoundsCollision_def potentialAABB_def Let_def split_def)

lemma resolveWorldBoundsCollision_inside:
  assumes "\<not> checkWorldBounds (potentialAABB d p) mb"
  shows "resolveWorldBoundsCollision d e p mb = (p, e)"
proof -
  from assms have
    x: "\<not> vx p - entityHalfWidth d < vx (bmin mb)" "\<not> vx p + entityHalfWidth d > vx (bmax mb)" and
    y: "\<not> vy p < vy (bmin mb)" "\<not> vy p + entityHeight d > vy (bmax mb)" and
    z: "\<not> vz p - entityHalfDepth d < vz (bmin mb)" "\<not> vz p + entityHalfDepth d > vz (bmax mb)"
    by (simp_all add: checkWorldBounds_def potentialAABB_def)
  show ?thesis
    by (simp add: resolveWorldBoundsCollision_def potentialAABB_def Let_def
        resolve_axis_inside [OF x] resolve_axis_inside [OF y] resolve_axis_inside [OF z])
qed

lemma resolveWorldBoundsCollision_lands_inside:
  assumes "bounds_fit d mb"
  shows "\<not> checkWorldBounds (potentialAABB d (fst (resolveWorldBoundsCollision d e p mb))) mb"
proof -
  from assms have
    fx: "vx (bmin mb) + entityHalfWidth d \<le> vx (bmax mb) - entityHalfWidth d" and
    fy: "vy (bmin mb) + 0 \<le> vy (bmax mb) - entityHeight d" and
    fz: "vz (bmin mb) + entityHalfDepth d \<le> vz (bmax mb) - entityHalfDepth d"
    by (simp_all add: bounds_fit_def)
  show ?thesis
    using resolve_axis_lands_inside [OF fx, of "vx p" "vx (velocity e)"]
      resolve_axis_lands_inside [OF fy, of "vy p" "vy (velocity e)"]
      resolve_axis_lands_inside [OF fz, of "vz p" "vz (velocity e)"]
    by (simp add: resolveWorldBoundsCollision_fst checkWorldBounds_def potentialAABB_def)
qed

text \<open>
  C9, as amended: a position whose entity box is inside the bounds is returned unchanged,
  with the entity untouched; and when the map is at least as large as the entity's box on
  every axis, the returned position has its box inside the bounds, so that a second
  application to the result returns the same position and the same entity.
\<close>

theorem resolveWorldBounds_idempotent:
  "(\<not> checkWorldBounds (potentialAABB d p) mb \<longrightarrow> resolveWorldBoundsCollision d e p mb = (p, e))
   \<and> (bounds_fit d mb \<longrightarrow>
        \<not> checkWorldBounds (potentialAABB d (fst (resolveWorldBoundsCollision d e p mb))) mb
        \<and> resolveWorldBoundsCollision d (snd (resolveWorldBoundsCollision d e p mb))
              (fst (resolveWorldBoundsCollision d e p mb)) mb
            = resolveWorldBoundsCollision d e p mb)"
proof -
  have "resolveWorldBoundsCollision d (snd (resolveWorldBoundsCollision d e p mb))
              (fst (resolveWorldBoundsCollision d e p mb)) mb
            = resolveWorldBoundsCollision d e p mb" if fit: "bounds_fit d mb"
    using resolveWorldBoundsCollision_inside
      [OF resolveWorldBoundsCollision_lands_inside [OF fit, of e p],
       of "snd (resolveWorldBoundsCollision d e p mb)"]
    by simp
  then show ?thesis
    using resolveWorldBoundsCollision_inside resolveWorldBoundsCollision_lands_inside by blast
qed

theorem resolveWorldBounds_idempotent_witness:
  "\<not> checkWorldBounds (potentialAABB Player_dims (Vector3 10 0.5 (- 3))) defaultMapBounds
   \<and> resolveWorldBoundsCollision Player_dims
        \<lparr>obj_id = ''p'', position = Vector3 0 0 0, velocity = Vector3 1 (- 2) 3\<rparr>
        (Vector3 10 0.5 (- 3)) defaultMapBounds
      = (Vector3 10 0.5 (- 3), \<lparr>obj_id = ''p'', position = Vector3 0 0 0, velocity = Vector3 1 (- 2) 3\<rparr>)
   \<and> bounds_fit Player_dims defaultMapBounds
   \<and> fst (resolveWorldBoundsCollision Player_dims
        \<lparr>obj_id = ''p'', position = Vector3 0 0 0, velocity = Vector3 1 (- 2) 3\<rparr>
        (Vector3 60 (- 1) 0) defaultMapBounds) = Vector3 (248 / 5) 0 0
   \<and> resolveWorldBoundsCollision Player_dims
        (snd (resolveWorldBoundsCollision Player_dims
           \<lparr>obj_id = ''p'', position = Vector3 0 0 0, velocity = Vector3 1 (- 2) 3\<rparr>
           (Vector3 60 (- 1) 0) defaultMapBounds))
        (Vector3 (248 / 5) 0 0) defaultMapBounds
      = resolveWorldBoundsCollision Player_dims
           \<lparr>obj_id = ''p'', position = Vector3 0 0 0, velocity = Vector3 1 (- 2) 3\<rparr>
           (Vector3 60 (- 1) 0) defaultMapBounds"
proof -
  have inside: "\<not> checkWorldBounds (potentialAABB Player_dims (Vector3 10 0.5 (- 3))) defaultMapBounds"
    by (simp add: checkWorldBounds_def potentialAABB_def Player_dims_def defaultMapBounds_def
        entityHalfWidth_def entityHalfDepth_def entityHeight_def
        PLAYER_WIDTH_def PLAYER_HEIGHT_def PLAYER_DEPTH_def)
  have fit: "bounds_fit Player_dims defaultMapBounds"
    by (simp add: bounds_fit_def Player_dims_def defaultMapBounds_def
        entityHalfWidth_def entityHalfDepth_def entityHeight_def
        PLAYER_WIDTH_def PLAYER_HEIGHT_def PLAYER_DEPTH_def)
  have pos: "fst (resolveWorldBoundsCollision Player_dims
        \<lparr>obj_id = ''p'', position = Vector3 0 0 0, velocity = Vector3 1 (- 2) 3\<rparr>
        (Vector3 60 (- 1) 0) defaultMapBounds) = Vector3 (248 / 5) 0 0"
    by (simp add: resolveWorldBoundsCollision_fst resolve_axis_def Player_dims_def
        defaultMapBounds_def entityHalfWidth_def entityHalfDepth_def entityHeight_def
        PLAYER_WIDTH_def PLAYER_HEIGHT_def PLAYER_DEPTH_def)
  show ?thesis
    using inside fit
      resolveWorldBounds_idempotent [of Player_dims "Vector3 10 0.5 (- 3)" defaultMapBounds
        "\<lparr>obj_id = ''p'', position = Vector3 0 0 0, velocity = Vector3 1 (- 2) 3\<rparr>"]
      resolveWorldBounds_idempotent [of Player_dims "Vector3 60 (- 1) 0" defaultMapBounds
        "\<lparr>obj_id = ''p'', position = Vector3 0 0 0, velocity = Vector3 1 (- 2) 3\<rparr>"]
    by (simp add: pos)
qed

text \<open>
  C9 as stated fails when the map is narrower than the entity: for an entity 2 wide in a
  map 1 wide, the position clamped at the lower wall sticks out of the upper wall, and the
  second application moves it again.
\<close>

theorem resolveWorldBounds_twice_counterexample:
  "fst (resolveWorldBoundsCollision
          \<lparr>dim_width = Some 2, dim_height = Some 1, dim_depth = Some 1\<rparr>
          \<lparr>obj_id = ''e'', position = Vector3 0 0 0, velocity = Vector3 0 0 0\<rparr>
          (fst (resolveWorldBoundsCollision
                  \<lparr>dim_width = Some 2, dim_height = Some 1, dim_depth = Some 1\<rparr>
                  \<lparr>obj_id = ''e'', position = Vector3 0 0 0, velocity = Vector3 0 0 0\<rparr>
                  (Vector3 0 1 5) (AABB (Vector3 0 0 0) (Vector3 1 10 10))))
          (AABB (Vector3 0 0 0) (Vector3 1 10 10)))
     \<noteq> fst (resolveWorldBoundsCollision
          \<lparr>dim_width = Some 2, dim_height = Some 1, dim_depth = Some 1\<rparr>
          \<lparr>obj_id = ''e'', position = Vector3 0 0 0, velocity = Vector3 0 0 0\<rparr>
          (Vector3 0 1 5) (AABB (Vector3 0 0 0) (Vector3 1 10 10)))
   \<and> fst (resolveWorldBoundsCollision
          \<lparr>dim_width = Some 2, dim_height = Some 1, dim_depth = Some 1\<rparr>
          \<lparr>obj_id = ''e'', position = Vector3 0 0 0, velocity = Vector3 0 0 0\<rparr>
          (Vector3 0 1 5) (AABB (Vector3 0 0 0) (Vector3 1 10 10)))
     = Vector3 1 1 5
   \<and> fst (resolveWorldBoundsCollision
          \<lparr>dim_width = Some 2, dim_height = Some 1, dim_depth = Some 1\<rparr>
          \<lparr>obj_id = ''e'', position = Vector3 0 0 0, velocity = Vector3 0 0 0\<rparr>
          (Vector3 1 1 5) (AABB (Vector3 0 0 0) (Vector3 1 10 10)))
     = Vector3 0 1 5"
  by (simp add: resolveWorldBoundsCollision_fst resolve_axis_def
      entityHalfWidth_def entityHalfDepth_def entityHeight_def)

section \<open>CollisionSystem: the ray test\<close>

lemma slab_step_parallel:
  "\<bar>dirAxis\<bar> < EPSILON \<Longrightarrow>
     slab_step dirAxis originAxis minAxis maxAxis tt =
       (if originAxis < minAxis \<or> originAxis > maxAxis then None else Some tt)"
  by (simp add: slab_step_def)

lemma slab_step_active:
  "\<not> \<bar>dirAxis\<bar> < EPSILON \<Longrightarrow>
     slab_step dirAxis originAxis minAxis maxAxis (tmin, tmax) =
       (let e = min ((minAxis - originAxis) / dirAxis) ((maxAxis - originAxis) / dirAxis);
            x = max ((minAxis - originAxis) / dirAxis) ((maxAxis - originAxis) / dirAxis)
        in if max tmin e > min tmax x then None else Some (max tmin e, min tmax x))"
  by (auto simp add: slab_step_def Let_def divide_inverse min_def max_def)

lemma Max_insert_insert:
  fixes a :: real
  assumes "finite A"
  shows "Max (insert a (insert b A)) = Max (insert (max a b) A)"
proof (cases "A = {}")
  case True
  then show ?thesis by (simp add: max.commute)
next
  case False
  with assms show ?thesis by (simp add: max.assoc)
qed

lemma Min_insert_insert:
  fixes a :: real
  assumes "finite A"
  shows "Min (insert a (insert b A)) = Min (insert (min a b) A)"
proof (cases "A = {}")
  case True
  then show ?thesis by (simp add: min.commute)
next
  case False
  with assms show ?thesis by (simp add: min.assoc)
qed

lemma slab_loop_closed:
  "tmin \<le> tmax \<Longrightarrow>
   slab_loop ro rd box axes (tmin, tmax) =
     (if \<exists>i\<in>set axes. axis_parallel rd i \<and> outside_slab ro box i then None
      else if Max (insert tmin (entry_time ro rd box ` {i \<in> set axes. \<not> axis_parallel rd i}))
              \<le> Min (insert tmax (exit_time ro rd box ` {i \<in> set axes. \<not> axis_parallel rd i}))
           then Some (Max (insert tmin (entry_time ro rd box ` {i \<in> set axes. \<not> axis_parallel rd i})),
                      Min (insert tmax (exit_time ro rd box ` {i \<in> set axes. \<not> axis_parallel rd i})))
           else None)"
proof (induction axes arbitrary: tmin tmax)
  case Nil
  then show ?case by simp
next
  case (Cons i rest)
  let ?S = "{j \<in> set rest. \<not> axis_parallel rd j}"
  have fin: "finite (entry_time ro rd box ` ?S)" "finite (exit_time ro rd box ` ?S)" by simp_all
  show ?case
  proof (cases "axis_parallel rd i")
    case True
    then have S: "{j \<in> set (i # rest). \<not> axis_parallel rd j} = ?S" by auto
    from True have par: "\<bar>axis_of i rd\<bar> < EPSILON" by (simp add: axis_parallel_def)
    show ?thesis
    proof (cases "outside_slab ro box i")
      case out: True
      then show ?thesis using True par
        by (simp add: slab_step_parallel outside_slab_def)
    next
      case inn: False
      then have "slab_loop ro rd box (i # rest) (tmin, tmax) = slab_loop ro rd box rest (tmin, tmax)"
        using par by (simp add: slab_step_parallel outside_slab_def)
      then show ?thesis using Cons.IH [OF Cons.prems] inn True unfolding S by simp
    qed
  next
    case False
    then have S: "{j \<in> set (i # rest). \<not> axis_parallel rd j} = insert i ?S" by auto
    from False have act: "\<not> \<bar>axis_of i rd\<bar> < EPSILON" by (simp add: axis_parallel_def)
    let ?e = "entry_time ro rd box i" and ?x = "exit_time ro rd box i"
    have E: "Max (insert tmin (entry_time ro rd box ` insert i ?S))
              = Max (insert (max tmin ?e) (entry_time ro rd box ` ?S))"
      using Max_insert_insert [OF fin(1)] by simp
    have X: "Min (insert tmax (exit_time ro rd box ` insert i ?S))
              = Min (insert (min tmax ?x) (exit_time ro rd box ` ?S))"
      using Min_insert_insert [OF fin(2)] by simp
    have step: "slab_step (axis_of i rd) (axis_of i ro) (axis_of i (bmin box)) (axis_of i (bmax box)) (tmin, tmax)
         = (if max tmin ?e > min tmax ?x then None else Some (max tmin ?e, min tmax ?x))"
      using slab_step_active [OF act] by (simp add: entry_time_def exit_time_def Let_def)
    define E' where "E' = Max (insert (max tmin ?e) (entry_time ro rd box ` ?S))"
    define X' where "X' = Min (insert (min tmax ?x) (exit_time ro rd box ` ?S))"
    have E'_ge: "max tmin ?e \<le> E'"
      unfolding E'_def by (rule Max_ge) (simp_all add: fin)
    have X'_le: "X' \<le> min tmax ?x"
      unfolding X'_def by (rule Min_le) (simp_all add: fin)
    show ?thesis
    proof (cases "max tmin ?e > min tmax ?x")
      case gt: True
      have lhs: "slab_loop ro rd box (i # rest) (tmin, tmax) = None"
        using gt step by simp
      have "\<not> E' \<le> X'" using gt E'_ge X'_le by linarith
      then show ?thesis
        unfolding lhs S E X E'_def [symmetric] X'_def [symmetric] by simp
    next
      case le: False
      then have le': "max tmin ?e \<le> min tmax ?x" by linarith
      have lhs: "slab_loop ro rd box (i # rest) (tmin, tmax)
              = slab_loop ro rd box rest (max tmin ?e, min tmax ?x)"
        using le step by simp
      show ?thesis
        unfolding lhs S E X Cons.IH [OF le'] E'_def [symmetric] X'_def [symmetric]
        using False by simp
    qed
  qed
qed


lemma checkRayAABBIntersection_range:
  "checkRayAABBIntersection ro rd m box = Some t \<Longrightarrow> 0 \<le> t \<and> t \<le> 1"
  by (auto simp add: checkRayAABBIntersection_def split: if_splits option.splits)

lemma checkRayAABBIntersection_closed:
  assumes "\<not> Vector3_magnitudeSq rd < 0.00001"
  shows "checkRayAABBIntersection ro rd m box =
     (if \<exists>i\<in>{0, 1, 2}. axis_parallel rd i \<and> outside_slab ro box i then None
      else if slab_entry ro rd box \<le> slab_exit ro rd box then Some (slab_entry ro rd box)
      else None)"
proof -
  let ?S = "{i \<in> {0, 1, 2}. \<not> axis_parallel rd i}"
  have set3: "set [0, 1, 2 :: nat] = {0, 1, 2}" by simp
  have loop: "slab_loop ro rd box [0, 1, 2] (0, 1) =
     (if \<exists>i\<in>{0, 1, 2}. axis_parallel rd i \<and> outside_slab ro box i then None
      else if slab_entry ro rd box \<le> slab_exit ro rd box
           then Some (slab_entry ro rd box, slab_exit ro rd box)
           else None)"
    using slab_loop_closed [of 0 1 ro rd box "[0, 1, 2]"]
    unfolding set3 slab_entry_def slab_exit_def by simp
  have ge0: "0 \<le> slab_entry ro rd box"
    unfolding slab_entry_def by (rule Max_ge) simp_all
  have le1: "slab_exit ro rd box \<le> 1"
    unfolding slab_exit_def by (rule Min_le) simp_all
  show ?thesis
    using assms ge0 le1 unfolding checkRayAABBIntersection_def loop by auto
qed

lemma slab_entry_all_axes:
  assumes "\<not> axis_parallel rd 0" and "\<not> axis_parallel rd 1" and "\<not> axis_parallel rd 2"
  shows "slab_entry ro rd box
           = max 0 (max (entry_time ro rd box 0) (max (entry_time ro rd box 1) (entry_time ro rd box 2)))"
proof -
  have "{i \<in> {0, 1, 2}. \<not> axis_parallel rd i} = {0, 1, 2}" using assms by auto
  then show ?thesis by (simp add: slab_entry_def)
qed

text \<open>
  C2: \<open>checkRayAABBIntersection\<close> returns \<open>null\<close> or a fraction in \<open>[0, 1]\<close>. A direction of
  squared magnitude below 0.00001 falls back to the overlap test of the point box, giving 0
  on overlap and \<open>null\<close> otherwise. On an axis whose direction component is below
  \<open>EPSILON\<close> the loop returns \<open>null\<close> exactly when the origin is outside that axis's
  slab, and otherwise leaves the interval alone. For any other direction the result is
  \<open>null\<close> when a parallel axis rejects, and otherwise the entry fraction (the largest
  per-axis entry time, not below 0) when it does not exceed the exit fraction (the smallest
  per-axis exit time, not above 1), and \<open>null\<close> when it does.
\<close>

theorem checkRayAABBIntersection_slab_test:
  "(\<forall>t. checkRayAABBIntersection ro rd m box = Some t \<longrightarrow> 0 \<le> t \<and> t \<le> 1)
   \<and> (Vector3_magnitudeSq rd < 0.00001 \<longrightarrow>
        checkRayAABBIntersection ro rd m box
          = (if checkAABBOverlap (AABB ro ro) box then Some 0 else None))
   \<and> (\<bar>dirAxis\<bar> < EPSILON \<longrightarrow>
        slab_step dirAxis originAxis minAxis maxAxis tt
          = (if originAxis < minAxis \<or> originAxis > maxAxis then None else Some tt))
   \<and> (\<not> Vector3_magnitudeSq rd < 0.00001 \<longrightarrow>
        checkRayAABBIntersection ro rd m box
          = (if \<exists>i\<in>{0, 1, 2}. axis_parallel rd i \<and> outside_slab ro box i then None
             else if slab_entry ro rd box \<le> slab_exit ro rd box
                  then Some (slab_entry ro rd box)
                  else None))
   \<and> (\<not> axis_parallel rd 0 \<and> \<not> axis_parallel rd 1 \<and> \<not> axis_parallel rd 2 \<longrightarrow>
        slab_entry ro rd box
          = max 0 (max (entry_time ro rd box 0)
                       (max (entry_time ro rd box 1) (entry_time ro rd box 2))))"
proof -
  have a: "\<forall>t. checkRayAABBIntersection ro rd m box = Some t \<longrightarrow> 0 \<le> t \<and> t \<le> 1"
    using checkRayAABBIntersection_range by blast
  have b: "Vector3_magnitudeSq rd < 0.00001 \<longrightarrow>
        checkRayAABBIntersection ro rd m box
          = (if checkAABBOverlap (AABB ro ro) box then Some 0 else None)"
    by (simp add: checkRayAABBIntersection_def)
  have c: "\<bar>dirAxis\<bar> < EPSILON \<longrightarrow>
        slab_step dirAxis originAxis minAxis maxAxis tt
          = (if originAxis < minAxis \<or> originAxis > maxAxis then None else Some tt)"
    using slab_step_parallel by blast
  from a b c checkRayAABBIntersection_closed [of rd ro m box]
    slab_entry_all_axes [of rd ro box]
  show ?thesis by blast
qed

lemma scenario_ray:
  "checkRayAABBIntersection (Vector3 0 1 0) (Vector3 10 0 0) 10
     (AABB (Vector3 4 1 (- 1)) (Vector3 6 3 1)) = Some (2 / 5)"
  by (simp add: checkRayAABBIntersection_def Vector3_magnitudeSq_def slab_step_def axis_of_def
      EPSILON_def Let_def)


theorem checkRayAABBIntersection_slab_test_witness:
  "checkRayAABBIntersection (Vector3 0 1 0) (Vector3 10 0 0) 10
       (AABB (Vector3 4 1 (- 1)) (Vector3 6 3 1)) = Some (2 / 5)
   \<and> (0::real) \<le> 2 / 5 \<and> (2 / 5 :: real) \<le> 1
   \<and> Vector3_magnitudeSq (Vector3 0 0 0) < 0.00001
   \<and> checkAABBOverlap (AABB (Vector3 5 2 0) (Vector3 5 2 0))
        (AABB (Vector3 4 1 (- 1)) (Vector3 6 3 1))
   \<and> checkRayAABBIntersection (Vector3 5 2 0) (Vector3 0 0 0) 0
        (AABB (Vector3 4 1 (- 1)) (Vector3 6 3 1)) = Some 0
   \<and> \<bar>0 :: real\<bar> < EPSILON
   \<and> slab_step 0 5 1 3 (0, 1) = None
   \<and> slab_step 0 2 1 3 (0, 1) = Some (0, 1)
   \<and> \<not> Vector3_magnitudeSq (Vector3 10 0 0) < 0.00001
   \<and> slab_entry (Vector3 0 1 0) (Vector3 10 0 0) (AABB (Vector3 4 1 (- 1)) (Vector3 6 3 1)) = 2 / 5
   \<and> \<not> axis_parallel (Vector3 10 1 1) 0 \<and> \<not> axis_parallel (Vector3 10 1 1) 1
   \<and> \<not> axis_parallel (Vector3 10 1 1) 2
   \<and> slab_entry (Vector3 0 1 0) (Vector3 10 1 1) (AABB (Vector3 4 1 (- 1)) (Vector3 6 3 1)) = 2 / 5"
proof -
  let ?box = "AABB (Vector3 4 1 (- 1)) (Vector3 6 3 1)"
  have hit: "checkRayAABBIntersection (Vector3 0 1 0) (Vector3 10 0 0) 10 ?box = Some (2 / 5)"
    by (simp add: checkRayAABBIntersection_def Vector3_magnitudeSq_def slab_step_def
        axis_of_def EPSILON_def Let_def)
  have deg: "Vector3_magnitudeSq (Vector3 0 0 0) < 0.00001"
    by (simp add: Vector3_magnitudeSq_def)
  have ov: "checkAABBOverlap (AABB (Vector3 5 2 0) (Vector3 5 2 0)) ?box"
    by (simp add: checkAABBOverlap_def)
  have par: "\<bar>0 :: real\<bar> < EPSILON"
    by (simp add: EPSILON_def)
  have nondeg: "\<not> Vector3_magnitudeSq (Vector3 10 0 0) < 0.00001"
    by (simp add: Vector3_magnitudeSq_def)
  have act: "\<not> axis_parallel (Vector3 10 1 1) 0" "\<not> axis_parallel (Vector3 10 1 1) 1"
    "\<not> axis_parallel (Vector3 10 1 1) 2"
    by (simp_all add: axis_parallel_def axis_of_def EPSILON_def)
  note t1 = checkRayAABBIntersection_slab_test
      [of "Vector3 0 1 0" "Vector3 10 0 0" 10 ?box 0 5 1 3 "(0, 1)"]
  note t2 = checkRayAABBIntersection_slab_test
      [of "Vector3 5 2 0" "Vector3 0 0 0" 0 ?box 0 2 1 3 "(0, 1)"]
  note t3 = checkRayAABBIntersection_slab_test
      [of "Vector3 0 1 0" "Vector3 10 1 1" 10 ?box 0 2 1 3 "(0, 1)"]
  have e1: "slab_entry (Vector3 0 1 0) (Vector3 10 0 0) ?box = 2 / 5"
    using t1 nondeg hit by (auto split: if_splits)
  have e2: "slab_entry (Vector3 0 1 0) (Vector3 10 1 1) ?box = 2 / 5"
    using t3 act by (simp add: entry_time_def axis_of_def)
  have s1: "slab_step 0 5 1 3 (0, 1) = None" using t1 par by simp
  have s2: "slab_step 0 2 1 3 (0, 1) = Some (0, 1)" using t2 par by simp
  have d0: "checkRayAABBIntersection (Vector3 5 2 0) (Vector3 0 0 0) 0 ?box = Some 0"
    using t2 deg ov by simp
  from hit deg ov d0 par s1 s2 nondeg e1 act e2 show ?thesis by simp
qed

section \<open>ClientPlayer: reconciliation\<close>

lemma updateState_local_fields:
  assumes "localPlayerId = Some (obj_id p)"
  shows "health (updateState localPlayerId s ts p) = (case ps_health s of Some h \<Rightarrow> h | None \<Rightarrow> health p)"
    and "maxHealth (updateState localPlayerId s ts p)
           = (case ps_maxHealth s of Some h \<Rightarrow> h | None \<Rightarrow> maxHealth p)"
    and "score (updateState localPlayerId s ts p) = (case ps_score s of Some v \<Rightarrow> v | None \<Rightarrow> score p)"
    and "isAlive (updateState localPlayerId s ts p)
           = (case ps_isAlive s of Some a \<Rightarrow> a | None \<Rightarrow> isAlive p)"
  using assms
  by (simp_all add: updateState_def Let_def split: option.splits)

lemma updateState_local_alive_position:
  assumes "localPlayerId = Some (obj_id p)"
    and "isAlive (updateState localPlayerId s ts p)" and "ps_position s = Some serverPos"
  shows "position (updateState localPlayerId s ts p)
           = (if Vector3_distanceToSq (position p) serverPos > RECONCILIATION_THRESHOLD_SQ
              then serverPos else position p)"
    and "velocity (updateState localPlayerId s ts p)
           = (if Vector3_distanceToSq (position p) serverPos > RECONCILIATION_THRESHOLD_SQ
              then Vector3 0 0 0 else velocity p)"
  using assms
  by (simp_all add: updateState_def Let_def split: option.splits if_splits)

text \<open>When the snapshot leaves the local player dead, the position is taken without a test.\<close>

lemma updateState_local_dead_position:
  assumes "localPlayerId = Some (obj_id p)"
    and "\<not> isAlive (updateState localPlayerId s ts p)" and "ps_position s = Some serverPos"
  shows "position (updateState localPlayerId s ts p) = serverPos
         \<and> velocity (updateState localPlayerId s ts p) = Vector3 0 0 0"
  using assms
  by (simp add: updateState_def Let_def split: option.splits if_splits)

text \<open>
  C3, as amended: when a snapshot is applied to the local player, each of health,
  maxHealth, score and isAlive that the snapshot carries replaces the local value,
  whatever the position error. If the player is alive once these are applied and the
  snapshot carries a position, the local position becomes the server's and the velocity
  zero exactly when the squared distance between the two is strictly greater than
  \<open>RECONCILIATION_THRESHOLD_SQ\<close>; at a squared distance equal to the threshold, position
  and velocity are kept. If the player is dead once they are applied, the position is the
  server's and the velocity zero at any distance.
\<close>

theorem updateState_reconciliation:
  assumes "localPlayerId = Some (obj_id p)"
  shows "(\<forall>h. ps_health s = Some h \<longrightarrow> health (updateState localPlayerId s ts p) = h)
     \<and> (\<forall>h. ps_maxHealth s = Some h \<longrightarrow> maxHealth (updateState localPlayerId s ts p) = h)
     \<and> (\<forall>v. ps_score s = Some v \<longrightarrow> score (updateState localPlayerId s ts p) = v)
     \<and> (\<forall>a. ps_isAlive s = Some a \<longrightarrow> isAlive (updateState localPlayerId s ts p) = a)
     \<and> (ps_isAlive s = None \<longrightarrow> isAlive (updateState localPlayerId s ts p) = isAlive p)
     \<and> (\<forall>serverPos. isAlive (updateState localPlayerId s ts p) \<and> ps_position s = Some serverPos \<longrightarrow>
           (Vector3_distanceToSq (position p) serverPos > RECONCILIATION_THRESHOLD_SQ \<longrightarrow>
              position (updateState localPlayerId s ts p) = serverPos
              \<and> velocity (updateState localPlayerId s ts p) = Vector3 0 0 0)
         \<and> (Vector3_distanceToSq (position p) serverPos \<le> RECONCILIATION_THRESHOLD_SQ \<longrightarrow>
              position (updateState localPlayerId s ts p) = position p
              \<and> velocity (updateState localPlayerId s ts p) = velocity p))
     \<and> (\<forall>serverPos. \<not> isAlive (updateState localPlayerId s ts p) \<and> ps_position s = Some serverPos \<longrightarrow>
           position (updateState localPlayerId s ts p) = serverPos
           \<and> velocity (updateState localPlayerId s ts p) = Vector3 0 0 0)"
proof -
  have fields: "(\<forall>h. ps_health s = Some h \<longrightarrow> health (updateState localPlayerId s ts p) = h)
     \<and> (\<forall>h. ps_maxHealth s = Some h \<longrightarrow> maxHealth (updateState localPlayerId s ts p) = h)
     \<and> (\<forall>v. ps_score s = Some v \<longrightarrow> score (updateState localPlayerId s ts p) = v)
     \<and> (\<forall>a. ps_isAlive s = Some a \<longrightarrow> isAlive (updateState localPlayerId s ts p) = a)
     \<and> (ps_isAlive s = None \<longrightarrow> isAlive (updateState localPlayerId s ts p) = isAlive p)"
    by (simp add: updateState_local_fields [OF assms])
  have pos: "\<forall>serverPos. isAlive (updateState localPlayerId s ts p) \<and> ps_position s = Some serverPos \<longrightarrow>
           (Vector3_distanceToSq (position p) serverPos > RECONCILIATION_THRESHOLD_SQ \<longrightarrow>
              position (updateState localPlayerId s ts p) = serverPos
              \<and> velocity (updateState localPlayerId s ts p) = Vector3 0 0 0)
         \<and> (Vector3_distanceToSq (position p) serverPos \<le> RECONCILIATION_THRESHOLD_SQ \<longrightarrow>
              position (updateState localPlayerId s ts p) = position p
              \<and> velocity (updateState localPlayerId s ts p) = velocity p)"
    using updateState_local_alive_position [OF assms] by auto
  have dead: "\<forall>serverPos. \<not> isAlive (updateState localPlayerId s ts p) \<and> ps_position s = Some serverPos \<longrightarrow>
           position (updateState localPlayerId s ts p) = serverPos
           \<and> velocity (updateState localPlayerId s ts p) = Vector3 0 0 0"
    using updateState_local_dead_position [OF assms] by blast
  from fields pos dead show ?thesis by blast
qed

theorem updateState_reconciliation_witness:
  "Some ''me'' = Some (obj_id example_client)
   \<and> ps_health (example_snapshot (Vector3 (1 / 5) 0 0)) = Some 80
   \<and> health (updateState (Some ''me'') (example_snapshot (Vector3 (1 / 5) 0 0)) 1000 example_client) = 80
   \<and> maxHealth (updateState (Some ''me'') (example_snapshot (Vector3 (1 / 5) 0 0)) 1000 example_client) = 120
   \<and> score (updateState (Some ''me'') (example_snapshot (Vector3 (1 / 5) 0 0)) 1000 example_client) = 3
   \<and> isAlive (updateState (Some ''me'') (example_snapshot (Vector3 (1 / 5) 0 0)) 1000 example_client)
   \<and> ps_position (example_snapshot (Vector3 (1 / 5) 0 0)) = Some (Vector3 (1 / 5) 0 0)
   \<and> Vector3_distanceToSq (position example_client) (Vector3 (1 / 5) 0 0) = RECONCILIATION_THRESHOLD_SQ
   \<and> position (updateState (Some ''me'') (example_snapshot (Vector3 (1 / 5) 0 0)) 1000 example_client)
       = Vector3 0 0 0
   \<and> velocity (updateState (Some ''me'') (example_snapshot (Vector3 (1 / 5) 0 0)) 1000 example_client)
       = Vector3 1 0 0
   \<and> isAlive (updateState (Some ''me'') (example_snapshot (Vector3 (3 / 10) 0 0)) 1000 example_client)
   \<and> Vector3_distanceToSq (position example_client) (Vector3 (3 / 10) 0 0) > RECONCILIATION_THRESHOLD_SQ
   \<and> position (updateState (Some ''me'') (example_snapshot (Vector3 (3 / 10) 0 0)) 1000 example_client)
       = Vector3 (3 / 10) 0 0
   \<and> velocity (updateState (Some ''me'') (example_snapshot (Vector3 (3 / 10) 0 0)) 1000 example_client)
       = Vector3 0 0 0"
proof -
  have loc: "Some ''me'' = Some (obj_id example_client)"
    by (simp add: example_client_def)
  have d1: "Vector3_distanceToSq (position example_client) (Vector3 (1 / 5) 0 0)
              = RECONCILIATION_THRESHOLD_SQ"
    by (simp add: example_client_def Vector3_distanceToSq_def RECONCILIATION_THRESHOLD_SQ_def)
  have d2: "Vector3_distanceToSq (position example_client) (Vector3 (3 / 10) 0 0)
              > RECONCILIATION_THRESHOLD_SQ"
    by (simp add: example_client_def Vector3_distanceToSq_def RECONCILIATION_THRESHOLD_SQ_def)
  have snap: "ps_health (example_snapshot pos) = Some 80"
    "ps_maxHealth (example_snapshot pos) = Some 120"
    "ps_score (example_snapshot pos) = Some 3"
    "ps_isAlive (example_snapshot pos) = Some True"
    "ps_position (example_snapshot pos) = Some pos" for pos
    by (simp_all add: example_snapshot_def)
  have pv: "position example_client = Vector3 0 0 0" "velocity example_client = Vector3 1 0 0"
    by (simp_all add: example_client_def)
  note near = updateState_reconciliation
    [OF loc, where s = "example_snapshot (Vector3 (1 / 5) 0 0)" and ts = 1000]
  note far = updateState_reconciliation
    [OF loc, where s = "example_snapshot (Vector3 (3 / 10) 0 0)" and ts = 1000]
  from near have n1:
    "health (updateState (Some ''me'') (example_snapshot (Vector3 (1 / 5) 0 0)) 1000 example_client) = 80"
    "maxHealth (updateState (Some ''me'') (example_snapshot (Vector3 (1 / 5) 0 0)) 1000 example_client) = 120"
    "score (updateState (Some ''me'') (example_snapshot (Vector3 (1 / 5) 0 0)) 1000 example_client) = 3"
    "isAlive (updateState (Some ''me'') (example_snapshot (Vector3 (1 / 5) 0 0)) 1000 example_client)"
    by (auto simp add: snap)
  from near n1(4) d1 have n2:
    "position (updateState (Some ''me'') (example_snapshot (Vector3 (1 / 5) 0 0)) 1000 example_client)
       = Vector3 0 0 0"
    "velocity (updateState (Some ''me'') (example_snapshot (Vector3 (1 / 5) 0 0)) 1000 example_client)
       = Vector3 1 0 0"
    by (simp_all add: snap pv)
  from far have f1:
    "isAlive (updateState (Some ''me'') (example_snapshot (Vector3 (3 / 10) 0 0)) 1000 example_client)"
    by (auto simp add: snap)
  from far f1 d2 have f2:
    "position (updateState (Some ''me'') (example_snapshot (Vector3 (3 / 10) 0 0)) 1000 example_client)
       = Vector3 (3 / 10) 0 0"
    "velocity (updateState (Some ''me'') (example_snapshot (Vector3 (3 / 10) 0 0)) 1000 example_client)
       = Vector3 0 0 0"
    by (simp_all add: snap)
  from loc snap(1,5) n1 n2 d1 d2 f1 f2 show ?thesis by simp
qed

text \<open>
  C3 as stated fails for a live player whom the snapshot declares dead: the position is
  replaced by the server's and the velocity zeroed although the squared distance, 0.01,
  is below the threshold.
\<close>

theorem updateState_dead_snapshot_counterexample:
  "isAlive example_client
   \<and> Vector3_distanceToSq (position example_client) (Vector3 (1 / 10) 0 0)
       \<le> RECONCILIATION_THRESHOLD_SQ
   \<and> position (updateState (Some ''me'')
        ((example_snapshot (Vector3 (1 / 10) 0 0))\<lparr>ps_isAlive := Some False\<rparr>) 1000 example_client)
       = Vector3 (1 / 10) 0 0
   \<and> velocity (updateState (Some ''me'')
        ((example_snapshot (Vector3 (1 / 10) 0 0))\<lparr>ps_isAlive := Some False\<rparr>) 1000 example_client)
       = Vector3 0 0 0
   \<and> position (updateState (Some ''me'')
        ((example_snapshot (Vector3 (1 / 10) 0 0))\<lparr>ps_isAlive := Some False\<rparr>) 1000 example_client)
       \<noteq> position example_client
   \<and> velocity (updateState (Some ''me'')
        ((example_snapshot (Vector3 (1 / 10) 0 0))\<lparr>ps_isAlive := Some False\<rparr>) 1000 example_client)
       \<noteq> velocity example_client"
  by (simp add: updateState_def example_client_def example_snapshot_def Vector3_distanceToSq_def
      RECONCILIATION_THRESHOLD_SQ_def Let_def)


section \<open>ServerPlayer: applying the pending inputs\<close>

lemma ServerPlayer_onDeath_keeps_health: "keeps_health (Some ServerPlayer_onDeath)"
  by (simp add: keeps_health_def ServerPlayer_onDeath_def)




lemma fireWeapon_pending_update:
  "fireWeapon now d (p\<lparr>pendingInputs := X\<rparr>)
     = (fst (fireWeapon now d p), (snd (fireWeapon now d p))\<lparr>pendingInputs := X\<rparr>)"
  by (simp add: fireWeapon_def split_def Let_def split: option.splits)










section \<open>MovementSystem: projectile impacts\<close>

lemma static_hit_loop_range:
  assumes "static_hit_loop ro rd m obs c = Some (ob, t)"
    and "\<forall>o' t'. c = Some (o', t') \<longrightarrow> 0 \<le> t' \<and> t' \<le> 1"
  shows "0 \<le> t \<and> t \<le> 1"
  using assms
proof (induction obs arbitrary: c)
  case Nil
  then show ?case by simp
next
  case (Cons x xs)
  let ?c' = "(case checkRayAABBIntersection ro rd m (obstacleAABB x) of
          None \<Rightarrow> c
        | Some t_hit \<Rightarrow>
            if t_hit \<ge> 0 \<and> (case c of None \<Rightarrow> True | Some (c, min_t) \<Rightarrow> t_hit < min_t)
            then Some (x, t_hit)
            else c)"
  have run: "static_hit_loop ro rd m xs ?c' = Some (ob, t)" using Cons.prems(1) by simp
  have inv: "\<forall>o' t'. ?c' = Some (o', t') \<longrightarrow> 0 \<le> t' \<and> t' \<le> 1"
    using Cons.prems(2) checkRayAABBIntersection_range [of ro rd m "obstacleAABB x"]
    by (auto split: option.splits if_splits)
  from Cons.IH [OF run inv] show ?case .
qed

lemma checkProjectileHitStaticObstacleRaycast_range:
  "checkProjectileHitStaticObstacleRaycast prev delta obs = Some (ob, t) \<Longrightarrow> 0 \<le> t \<and> t \<le> 1"
  using static_hit_loop_range [of prev delta "Vector3_magnitude delta" obs None ob t]
  by (simp add: checkProjectileHitStaticObstacleRaycast_def Let_def split: if_splits)

lemma hitbox_loop_good:
  assumes "hitbox_loop ro rd m i boxes c = Some h"
    and "\<forall>h'. c = Some h' \<longrightarrow> good_hit players owner h'"
    and "i < length players" and "isAlive (players ! i)" and "obj_id (players ! i) \<noteq> owner"
    and "fst ` set boxes \<subseteq> {''head'', ''torso'', ''legs''}"
  shows "good_hit players owner h"
  using assms
proof (induction boxes arbitrary: c)
  case Nil
  then show ?case by simp
next
  case (Cons b bs)
  obtain k box where b: "b = (k, box)" by (cases b)
  let ?c' = "(case checkRayAABBIntersection ro rd m box of
          None \<Rightarrow> c
        | Some t_hit \<Rightarrow>
            if t_hit \<ge> 0 \<and> (case c of None \<Rightarrow> True | Some (c, k, min_t) \<Rightarrow> t_hit < min_t)
            then Some (i, k, t_hit)
            else c)"
  have run: "hitbox_loop ro rd m i bs ?c' = Some h" using Cons.prems(1) b by simp
  have k: "k \<in> {''head'', ''torso'', ''legs''}" using Cons.prems(6) b by auto
  have inv: "\<forall>h'. ?c' = Some h' \<longrightarrow> good_hit players owner h'"
    using Cons.prems(2,3,4,5) k checkRayAABBIntersection_range [of ro rd m box]
    by (auto simp add: good_hit_def split: option.splits if_splits)
  have sub: "fst ` set bs \<subseteq> {''head'', ''torso'', ''legs''}" using Cons.prems(6) by auto
  from Cons.IH [OF run inv Cons.prems(3,4,5) sub] show ?case .
qed

lemma getHitboxes_keys: "fst ` set (getHitboxes p) \<subseteq> {''head'', ''torso'', ''legs''}"
  by (simp add: getHitboxes_def calculateHitboxes_def Let_def)

lemma target_loop_good:
  assumes "target_loop owner ro rd m i targets c = Some h"
    and "\<forall>h'. c = Some h' \<longrightarrow> good_hit players owner h'"
    and "i + length targets = length players" and "drop i players = targets"
  shows "good_hit players owner h"
  using assms
proof (induction targets arbitrary: i c)
  case Nil
  then show ?case by simp
next
  case (Cons x xs)
  let ?c' = "(if obj_id x = owner \<or> \<not> isAlive x then c
        else hitbox_loop ro rd m i (getHitboxes x) c)"
  have run: "target_loop owner ro rd m (Suc i) xs ?c' = Some h" using Cons.prems(1) by simp
  have i: "i < length players" using Cons.prems(3) by simp
  have x: "players ! i = x" using Cons.prems(4) i
    by (metis nth_via_drop)
  have inv: "\<forall>h'. ?c' = Some h' \<longrightarrow> good_hit players owner h'"
  proof (cases "obj_id x = owner \<or> \<not> isAlive x")
    case True
    then show ?thesis using Cons.prems(2) by simp
  next
    case False
    then show ?thesis
      using hitbox_loop_good [of ro rd m i "getHitboxes x" c _ players owner]
        Cons.prems(2) i x getHitboxes_keys [of x]
      by auto
  qed
  have len: "Suc i + length xs = length players" using Cons.prems(3) by simp
  have dr: "drop (Suc i) players = xs" using Cons.prems(4)
    by (metis drop_Suc list.sel(3) tl_drop)
  from Cons.IH [OF run inv len dr] show ?case .
qed

lemma checkProjectileHitRaycast_good:
  "checkProjectileHitRaycast e prev delta players = Some h \<Longrightarrow> good_hit players (ownerId e) h"
  using target_loop_good [of "ownerId e" prev delta "Vector3_magnitude delta" 0 players None h players]
  by (simp add: checkProjectileHitRaycast_def Let_def split: if_splits)

lemma chooseHit_range:
  assumes "chooseHit hs hp = Some hit"
    and "\<forall>ob t. hs = Some (ob, t) \<longrightarrow> 0 \<le> t \<and> t \<le> 1"
    and "\<forall>i k t. hp = Some (i, k, t) \<longrightarrow> 0 \<le> t \<and> t \<le> 1"
  shows "0 \<le> hit_t hit \<and> hit_t hit \<le> 1"
  using assms
  by (auto simp add: chooseHit_def split: option.splits if_splits prod.splits)


lemma commitPosition_stopped:
  "position (commitPosition g True pos e) = pos"
  "velocity (commitPosition g True pos e) = Vector3 0 0 0"
  "markForRemoval (commitPosition g True pos e) = markForRemoval e"
  by (simp_all add: commitPosition_def Let_def)

lemma applyGravity_frame:
  "position (applyGravity dt e) = position e"
  "markForRemoval (applyGravity dt e) = markForRemoval e"
  "damage (applyGravity dt e) = damage e"
  "ownerId (applyGravity dt e) = ownerId e"
  by (simp_all add: applyGravity_def)

lemma applyHitDamage_damage_only:
  "damage e1 = damage e \<Longrightarrow> applyHitDamage od e1 hit players = applyHitDamage od e hit players"
  by (simp add: applyHitDamage_def split: HitResult.splits)

lemma update_projectile_hit:
  assumes "0 < dt" and "\<not> markForRemoval e"
    and "chooseHit
           (checkProjectileHitStaticObstacleRaycast (position e) (deltaPosition_of dt e) obstacles)
           (checkProjectileHitRaycast (applyGravity dt e) (position e) (deltaPosition_of dt e) players)
         = Some hit"
  shows "MovementSystem_update_projectile mb obstacles od em dt players e =
           (commitPosition (vy (bmin mb)) True
              (Vector3_add (position e) (Vector3_multiplyScalar (deltaPosition_of dt e) (hit_t hit)))
              ((applyGravity dt e)\<lparr>markForRemoval := True, velocity := Vector3 0 0 0\<rparr>),
            applyHitDamage od e hit players,
            if em then [impactEvent_of
                          ((applyGravity dt e)\<lparr>markForRemoval := True, velocity := Vector3 0 0 0\<rparr>)
                          (Vector3_add (position e)
                             (Vector3_multiplyScalar (deltaPosition_of dt e) (hit_t hit))) hit]
            else [])"
    and "MovementSystem_update_projectile_noground mb obstacles od em dt players e =
           (commitPosition (vy (bmin mb)) True
              (Vector3_add (position e) (Vector3_multiplyScalar (deltaPosition_of dt e) (hit_t hit)))
              ((applyGravity dt e)\<lparr>markForRemoval := True, velocity := Vector3 0 0 0\<rparr>),
            applyHitDamage od e hit players,
            if em then [impactEvent_of
                          ((applyGravity dt e)\<lparr>markForRemoval := True, velocity := Vector3 0 0 0\<rparr>)
                          (Vector3_add (position e)
                             (Vector3_multiplyScalar (deltaPosition_of dt e) (hit_t hit))) hit]
            else [])"
proof -
  let ?g = "applyGravity dt e"
  let ?hs = "checkProjectileHitStaticObstacleRaycast (position e) (deltaPosition_of dt e) obstacles"
  let ?hp = "checkProjectileHitRaycast ?g (position e) (deltaPosition_of dt e) players"
  have rs: "\<forall>ob t. ?hs = Some (ob, t) \<longrightarrow> 0 \<le> t \<and> t \<le> 1"
    using checkProjectileHitStaticObstacleRaycast_range by blast
  have rp: "\<forall>i k t. ?hp = Some (i, k, t) \<longrightarrow> 0 \<le> t \<and> t \<le> 1"
    using checkProjectileHitRaycast_good [of ?g "position e" "deltaPosition_of dt e" players]
    by (auto simp add: good_hit_def)
  have range: "0 \<le> hit_t hit \<and> hit_t hit \<le> 1"
    using chooseHit_range [OF assms(3) rs rp] .
  have dmg: "applyHitDamage od (?g\<lparr>markForRemoval := True, velocity := Vector3 0 0 0\<rparr>) hit players
               = applyHitDamage od e hit players"
    by (rule applyHitDamage_damage_only) (simp add: applyGravity_def)
  have pos: "position ?g = position e" and nm: "\<not> markForRemoval ?g"
    using assms(2) by (simp_all add: applyGravity_def)
  have dp: "Vector3_multiplyScalar (velocity ?g) dt = deltaPosition_of dt e"
    by (simp add: deltaPosition_of_def)
  show "MovementSystem_update_projectile mb obstacles od em dt players e =
           (commitPosition (vy (bmin mb)) True
              (Vector3_add (position e) (Vector3_multiplyScalar (deltaPosition_of dt e) (hit_t hit)))
              (?g\<lparr>markForRemoval := True, velocity := Vector3 0 0 0\<rparr>),
            applyHitDamage od e hit players,
            if em then [impactEvent_of (?g\<lparr>markForRemoval := True, velocity := Vector3 0 0 0\<rparr>)
                          (Vector3_add (position e)
                             (Vector3_multiplyScalar (deltaPosition_of dt e) (hit_t hit))) hit]
            else [])"
    using assms(1) range
    unfolding MovementSystem_update_projectile_def Let_def pos dp
    by (simp add: nm assms(3) dmg)
  show "MovementSystem_update_projectile_noground mb obstacles od em dt players e =
           (commitPosition (vy (bmin mb)) True
              (Vector3_add (position e) (Vector3_multiplyScalar (deltaPosition_of dt e) (hit_t hit)))
              (?g\<lparr>markForRemoval := True, velocity := Vector3 0 0 0\<rparr>),
            applyHitDamage od e hit players,
            if em then [impactEvent_of (?g\<lparr>markForRemoval := True, velocity := Vector3 0 0 0\<rparr>)
                          (Vector3_add (position e)
                             (Vector3_multiplyScalar (deltaPosition_of dt e) (hit_t hit))) hit]
            else [])"
    using assms(1)
    unfolding MovementSystem_update_projectile_noground_def Let_def pos dp
    by (simp add: nm assms(3) dmg)
qed

lemma chooseHit_PlayerHit:
  "chooseHit hs hp = Some (PlayerHit i key t) \<Longrightarrow> hp = Some (i, key, t)"
  by (auto simp add: chooseHit_def split: option.splits if_splits prod.splits)

lemma chooseHit_both:
  "chooseHit (Some (ob, t_obs)) (Some (i, key, t_player))
     = Some (if t_obs \<le> t_player then StaticHit ob t_obs else PlayerHit i key t_player)"
  by (simp add: chooseHit_def)

lemma scenario_delta:
  "0 < step \<Longrightarrow> deltaPosition_of step (scenario_projectile step) = Vector3 10 0 0"
  by (simp add: deltaPosition_of_def applyGravity_def scenario_projectile_def new_Projectile_def
      Vector3_multiplyScalar_def)

lemma scenario_static_hit:
  "checkProjectileHitStaticObstacleRaycast (Vector3 0 1 0) (Vector3 10 0 0) [scenario_box]
     = Some (scenario_box, 2 / 5)"
proof -
  have box: "obstacleAABB scenario_box = AABB (Vector3 4 1 (- 1)) (Vector3 6 3 1)"
    by (simp add: obstacleAABB_def scenario_box_def Vector3_divideScalar_def Vector3_add_def Let_def)
  have ray: "checkRayAABBIntersection (Vector3 0 1 0) (Vector3 10 0 0) 10
               (AABB (Vector3 4 1 (- 1)) (Vector3 6 3 1)) = Some (2 / 5)"
    by (simp add: checkRayAABBIntersection_def Vector3_magnitudeSq_def slab_step_def axis_of_def
        EPSILON_def Let_def)
  show ?thesis
    by (simp add: checkProjectileHitStaticObstacleRaycast_def magnitude_along_x box ray)
qed

lemma scenario_no_player_hit:
  "checkProjectileHitRaycast e prev delta [] = None"
  by (simp add: checkProjectileHitRaycast_def Let_def)

lemma ray_misses_above:
  "1 < lo \<Longrightarrow>
   checkRayAABBIntersection (Vector3 0 1 0) (Vector3 10 0 0) 10 (AABB (Vector3 a lo b) (Vector3 c hi d))
     = None"
  by (simp add: checkRayAABBIntersection_def Vector3_magnitudeSq_def slab_step_def axis_of_def
      EPSILON_def Let_def)

lemma ray_misses_below:
  "hi < 1 \<Longrightarrow>
   checkRayAABBIntersection (Vector3 0 1 0) (Vector3 10 0 0) 10 (AABB (Vector3 a lo b) (Vector3 c hi d))
     = None"
  by (simp add: checkRayAABBIntersection_def Vector3_magnitudeSq_def slab_step_def axis_of_def
      EPSILON_def Let_def)

lemma scenario_hitboxes:
  "getHitboxes (scenario_target_at x) =
     [(''head'', AABB (Vector3 (x - 3 / 10) (151 / 100) (- (3 / 10)))
                      (Vector3 (x + 3 / 10) (211 / 100) (3 / 10))),
      (''torso'', AABB (Vector3 (x - 21 / 50) (7 / 10) (- (17 / 50)))
                       (Vector3 (x + 21 / 50) (31 / 20) (17 / 50))),
      (''legs'', AABB (Vector3 (x - 9 / 50) (- (1 / 50)) (- (9 / 50)))
                      (Vector3 (x + 9 / 50) (37 / 50) (9 / 50)))]"
  by (simp add: getHitboxes_def calculateHitboxes_def scenario_target_at_def new_Player_def Let_def
      PLAYER_WIDTH_def PLAYER_HEIGHT_def PLAYER_DEPTH_def Vector3_add_def Vector3_subtract_def)

lemma scenario_torso_hit:
  assumes "21 / 50 \<le> x" and "x \<le> 10 + 21 / 50"
  shows "checkRayAABBIntersection (Vector3 0 1 0) (Vector3 10 0 0) 10
           (AABB (Vector3 (x - 21 / 50) (7 / 10) (- (17 / 50)))
                 (Vector3 (x + 21 / 50) (31 / 20) (17 / 50)))
         = Some ((x - 21 / 50) / 10)"
  using assms
  by (simp add: checkRayAABBIntersection_def Vector3_magnitudeSq_def slab_step_def axis_of_def
      EPSILON_def Let_def max_def min_def)

lemma scenario_player_hit:
  assumes "\<not> markForRemoval e" and "ownerId e = ''o''" and "21 / 50 \<le> x" and "x \<le> 10 + 21 / 50"
  shows "checkProjectileHitRaycast e (Vector3 0 1 0) (Vector3 10 0 0) [scenario_target_at x]
           = Some (0, ''torso'', (x - 21 / 50) / 10)"
proof -
  have who: "obj_id (scenario_target_at x) = ''t''" "isAlive (scenario_target_at x)"
    by (simp_all add: scenario_target_at_def new_Player_def)
  have ge: "0 \<le> (x - 21 / 50) / 10" using assms(3) by simp
  show ?thesis
    using assms(1,2) ge
    by (simp add: checkProjectileHitRaycast_def magnitude_along_x who scenario_hitboxes
        ray_misses_above ray_misses_below scenario_torso_hit [OF assms(3,4)])
qed

text \<open>
  C1: in a tick of \<open>MovementSystem.update\<close> (either version of the file) on a projectile
  not yet flagged, with \<open>hs\<close> and \<open>hp\<close> the results of the obstacle and the player ray
  cast over the segment from the previous position along the displacement: when both
  hit, the impact is the obstacle's if its fraction is at most the player's and the
  player's otherwise; for whatever impact is chosen, its fraction \<open>t\<close> is in \<open>[0, 1]\<close>,
  the projectile ends at \<open>previousPosition + deltaPosition * t\<close> with zero velocity and
  \<open>markForRemoval\<close> set, and a struck player, live and not the owner, has taken
  \<open>takeDamage (damage, region)\<close>, losing \<open>round (damage * multiplier of the region)\<close>
  within the clamp, the other players and, for an obstacle, all players being untouched.
  The projectile at \<open>(0, 1, 0)\<close> displaced by \<open>(10, 0, 0)\<close> against the box of size 2 at
  \<open>(5, 1, 0)\<close> is hit at \<open>t = 2/5\<close> and ends at \<open>(4, 1, 0)\<close>, flagged, with zero velocity.
\<close>

theorem projectile_impact_resolution:
  assumes "0 < dt" and "\<not> markForRemoval e"
    and "prev = position e" and "delta = deltaPosition_of dt e"
    and "hs = checkProjectileHitStaticObstacleRaycast prev delta obstacles"
    and "hp = checkProjectileHitRaycast (applyGravity dt e) prev delta players"
  shows
    "(\<forall>ob t_obs i key t_player. hs = Some (ob, t_obs) \<and> hp = Some (i, key, t_player) \<longrightarrow>
        chooseHit hs hp
          = Some (if t_obs \<le> t_player then StaticHit ob t_obs else PlayerHit i key t_player))
     \<and> (\<forall>hit. chooseHit hs hp = Some hit \<longrightarrow>
          0 \<le> hit_t hit \<and> hit_t hit \<le> 1
          \<and> position (fst (MovementSystem_update_projectile mb obstacles od em dt players e))
              = Vector3_add prev (Vector3_multiplyScalar delta (hit_t hit))
          \<and> velocity (fst (MovementSystem_update_projectile mb obstacles od em dt players e))
              = Vector3 0 0 0
          \<and> markForRemoval (fst (MovementSystem_update_projectile mb obstacles od em dt players e))
          \<and> fst (snd (MovementSystem_update_projectile mb obstacles od em dt players e))
              = applyHitDamage od e hit players
          \<and> MovementSystem_update_projectile_noground mb obstacles od em dt players e
              = MovementSystem_update_projectile mb obstacles od em dt players e)
     \<and> (\<forall>i key t. chooseHit hs hp = Some (PlayerHit i key t) \<longrightarrow>
          i < length players \<and> isAlive (players ! i) \<and> obj_id (players ! i) \<noteq> ownerId e
          \<and> applyHitDamage od e (PlayerHit i key t) players
              = players[i := takeDamage od (damage e) (Some key) (players ! i)]
          \<and> (0 < damage e \<and> keeps_health od \<longrightarrow>
               health (takeDamage od (damage e) (Some key) (players ! i))
                 = max 0 (min (health (players ! i)
                                 - of_int (round (damage e * damage_multiplier (Some key))))
                              (maxHealth (players ! i)))))
     \<and> (\<forall>ob t. applyHitDamage od e (StaticHit ob t) players = players)
     \<and> (\<forall>step. 0 < step \<longrightarrow>
          deltaPosition_of step (scenario_projectile step) = Vector3 10 0 0
          \<and> checkProjectileHitStaticObstacleRaycast (Vector3 0 1 0) (Vector3 10 0 0) [scenario_box]
              = Some (scenario_box, 2 / 5)
          \<and> position (fst (MovementSystem_update_projectile mb [scenario_box] od em step []
                              (scenario_projectile step))) = Vector3 4 1 0
          \<and> velocity (fst (MovementSystem_update_projectile mb [scenario_box] od em step []
                              (scenario_projectile step))) = Vector3 0 0 0
          \<and> markForRemoval (fst (MovementSystem_update_projectile mb [scenario_box] od em step []
                              (scenario_projectile step)))
          \<and> MovementSystem_update_projectile_noground mb [scenario_box] od em step []
                (scenario_projectile step)
              = MovementSystem_update_projectile mb [scenario_box] od em step []
                  (scenario_projectile step))"
proof -
  let ?g = "applyGravity dt e"
  have both: "\<forall>ob t_obs i key t_player. hs = Some (ob, t_obs) \<and> hp = Some (i, key, t_player) \<longrightarrow>
        chooseHit hs hp
          = Some (if t_obs \<le> t_player then StaticHit ob t_obs else PlayerHit i key t_player)"
    using chooseHit_both by blast
  have stop: "\<forall>hit. chooseHit hs hp = Some hit \<longrightarrow>
          0 \<le> hit_t hit \<and> hit_t hit \<le> 1
          \<and> position (fst (MovementSystem_update_projectile mb obstacles od em dt players e))
              = Vector3_add prev (Vector3_multiplyScalar delta (hit_t hit))
          \<and> velocity (fst (MovementSystem_update_projectile mb obstacles od em dt players e))
              = Vector3 0 0 0
          \<and> markForRemoval (fst (MovementSystem_update_projectile mb obstacles od em dt players e))
          \<and> fst (snd (MovementSystem_update_projectile mb obstacles od em dt players e))
              = applyHitDamage od e hit players
          \<and> MovementSystem_update_projectile_noground mb obstacles od em dt players e
              = MovementSystem_update_projectile mb obstacles od em dt players e"
  proof (intro allI impI)
    fix hit
    assume h: "chooseHit hs hp = Some hit"
    then have h': "chooseHit
           (checkProjectileHitStaticObstacleRaycast (position e) (deltaPosition_of dt e) obstacles)
           (checkProjectileHitRaycast ?g (position e) (deltaPosition_of dt e) players)
         = Some hit"
      using assms(3-6) by simp
    have rs: "\<forall>ob t. hs = Some (ob, t) \<longrightarrow> 0 \<le> t \<and> t \<le> 1"
      using checkProjectileHitStaticObstacleRaycast_range assms(5) by metis
    have rp: "\<forall>i k t. hp = Some (i, k, t) \<longrightarrow> 0 \<le> t \<and> t \<le> 1"
      using checkProjectileHitRaycast_good [of ?g prev delta players] assms(6)
      by (auto simp add: good_hit_def)
    note u = update_projectile_hit [OF assms(1,2) h', of mb od em]
    show "0 \<le> hit_t hit \<and> hit_t hit \<le> 1
          \<and> position (fst (MovementSystem_update_projectile mb obstacles od em dt players e))
              = Vector3_add prev (Vector3_multiplyScalar delta (hit_t hit))
          \<and> velocity (fst (MovementSystem_update_projectile mb obstacles od em dt players e))
              = Vector3 0 0 0
          \<and> markForRemoval (fst (MovementSystem_update_projectile mb obstacles od em dt players e))
          \<and> fst (snd (MovementSystem_update_projectile mb obstacles od em dt players e))
              = applyHitDamage od e hit players
          \<and> MovementSystem_update_projectile_noground mb obstacles od em dt players e
              = MovementSystem_update_projectile mb obstacles od em dt players e"
      using chooseHit_range [OF h rs rp] assms(3,4)
      unfolding u by (simp add: commitPosition_stopped)
  qed
  have player: "\<forall>i key t. chooseHit hs hp = Some (PlayerHit i key t) \<longrightarrow>
          i < length players \<and> isAlive (players ! i) \<and> obj_id (players ! i) \<noteq> ownerId e
          \<and> applyHitDamage od e (PlayerHit i key t) players
              = players[i := takeDamage od (damage e) (Some key) (players ! i)]
          \<and> (0 < damage e \<and> keeps_health od \<longrightarrow>
               health (takeDamage od (damage e) (Some key) (players ! i))
                 = max 0 (min (health (players ! i)
                                 - of_int (round (damage e * damage_multiplier (Some key))))
                              (maxHealth (players ! i))))"
  proof (intro allI impI)
    fix i key t
    assume "chooseHit hs hp = Some (PlayerHit i key t)"
    then have "hp = Some (i, key, t)" by (rule chooseHit_PlayerHit)
    then have g: "good_hit players (ownerId e) (i, key, t)"
      using checkProjectileHitRaycast_good [of ?g prev delta players] assms(6)
      by (simp add: applyGravity_frame)
    then have i: "i < length players" and al: "isAlive (players ! i)"
      and ow: "obj_id (players ! i) \<noteq> ownerId e" and k: "key \<noteq> []"
      by (auto simp add: good_hit_def)
    have dm: "applyHitDamage od e (PlayerHit i key t) players
              = players[i := takeDamage od (damage e) (Some key) (players ! i)]"
      using i k by (simp add: applyHitDamage_def)
    show "i < length players \<and> isAlive (players ! i) \<and> obj_id (players ! i) \<noteq> ownerId e
          \<and> applyHitDamage od e (PlayerHit i key t) players
              = players[i := takeDamage od (damage e) (Some key) (players ! i)]
          \<and> (0 < damage e \<and> keeps_health od \<longrightarrow>
               health (takeDamage od (damage e) (Some key) (players ! i))
                 = max 0 (min (health (players ! i)
                                 - of_int (round (damage e * damage_multiplier (Some key))))
                              (maxHealth (players ! i))))"
      using i al ow dm takeDamage_health [OF al, of "damage e" od "Some key"] by blast
  qed
  have static: "\<forall>ob t. applyHitDamage od e (StaticHit ob t) players = players"
    by (simp add: applyHitDamage_def)
  have scen: "\<forall>step. 0 < step \<longrightarrow>
          deltaPosition_of step (scenario_projectile step) = Vector3 10 0 0
          \<and> checkProjectileHitStaticObstacleRaycast (Vector3 0 1 0) (Vector3 10 0 0) [scenario_box]
              = Some (scenario_box, 2 / 5)
          \<and> position (fst (MovementSystem_update_projectile mb [scenario_box] od em step []
                              (scenario_projectile step))) = Vector3 4 1 0
          \<and> velocity (fst (MovementSystem_update_projectile mb [scenario_box] od em step []
                              (scenario_projectile step))) = Vector3 0 0 0
          \<and> markForRemoval (fst (MovementSystem_update_projectile mb [scenario_box] od em step []
                              (scenario_projectile step)))
          \<and> MovementSystem_update_projectile_noground mb [scenario_box] od em step []
                (scenario_projectile step)
              = MovementSystem_update_projectile mb [scenario_box] od em step []
                  (scenario_projectile step)"
  proof (intro allI impI)
    fix step :: real
    assume st: "0 < step"
    let ?p = "scenario_projectile step"
    have nm: "\<not> markForRemoval ?p" and pos: "position ?p = Vector3 0 1 0"
      by (simp_all add: scenario_projectile_def new_Projectile_def)
    have d: "deltaPosition_of step ?p = Vector3 10 0 0" using st by (rule scenario_delta)
    have ch: "chooseHit
           (checkProjectileHitStaticObstacleRaycast (position ?p) (deltaPosition_of step ?p)
              [scenario_box])
           (checkProjectileHitRaycast (applyGravity step ?p) (position ?p)
              (deltaPosition_of step ?p) ([] :: 'a Player_scheme list))
         = Some (StaticHit scenario_box (2 / 5))"
      unfolding pos d scenario_static_hit scenario_no_player_hit
      by (simp add: chooseHit_def)
    note u = update_projectile_hit [OF st nm ch, of mb od em]
    show "deltaPosition_of step ?p = Vector3 10 0 0
          \<and> checkProjectileHitStaticObstacleRaycast (Vector3 0 1 0) (Vector3 10 0 0) [scenario_box]
              = Some (scenario_box, 2 / 5)
          \<and> position (fst (MovementSystem_update_projectile mb [scenario_box] od em step [] ?p))
              = Vector3 4 1 0
          \<and> velocity (fst (MovementSystem_update_projectile mb [scenario_box] od em step [] ?p))
              = Vector3 0 0 0
          \<and> markForRemoval (fst (MovementSystem_update_projectile mb [scenario_box] od em step [] ?p))
          \<and> MovementSystem_update_projectile_noground mb [scenario_box] od em step [] ?p
              = MovementSystem_update_projectile mb [scenario_box] od em step [] ?p"
      unfolding u
      by (simp add: d pos scenario_static_hit commitPosition_stopped Vector3_add_def
          Vector3_multiplyScalar_def)
  qed
  from both stop player static scen show ?thesis by (intro conjI)
qed


theorem projectile_impact_resolution_witness:
  "(0::real) < 1 \<and> \<not> markForRemoval (scenario_projectile 1)
   \<and> position (scenario_projectile 1) = Vector3 0 1 0
   \<and> deltaPosition_of 1 (scenario_projectile 1) = Vector3 10 0 0
   \<and> checkProjectileHitStaticObstacleRaycast (Vector3 0 1 0) (Vector3 10 0 0) [scenario_box]
       = Some (scenario_box, 2 / 5)
   \<and> checkProjectileHitRaycast (applyGravity 1 (scenario_projectile 1)) (Vector3 0 1 0)
        (Vector3 10 0 0) [scenario_target_at 2] = Some (0, ''torso'', 79 / 500)
   \<and> chooseHit (Some (scenario_box, 2 / 5)) (Some (0, ''torso'', 79 / 500))
       = Some (PlayerHit 0 ''torso'' (79 / 500))
   \<and> position (fst (MovementSystem_update_projectile defaultMapBounds [scenario_box] None True 1
                       [scenario_target_at 2] (scenario_projectile 1))) = Vector3 (79 / 50) 1 0
   \<and> velocity (fst (MovementSystem_update_projectile defaultMapBounds [scenario_box] None True 1
                       [scenario_target_at 2] (scenario_projectile 1))) = Vector3 0 0 0
   \<and> markForRemoval (fst (MovementSystem_update_projectile defaultMapBounds [scenario_box] None True 1
                       [scenario_target_at 2] (scenario_projectile 1)))
   \<and> map health (fst (snd (MovementSystem_update_projectile defaultMapBounds [scenario_box] None True 1
                       [scenario_target_at 2] (scenario_projectile 1)))) = [85]
   \<and> checkProjectileHitRaycast (applyGravity 1 (scenario_projectile 1)) (Vector3 0 1 0)
        (Vector3 10 0 0) [scenario_target_at (221 / 50)] = Some (0, ''torso'', 2 / 5)
   \<and> chooseHit (Some (scenario_box, 2 / 5)) (Some (0, ''torso'', 2 / 5))
       = Some (StaticHit scenario_box (2 / 5))
   \<and> position (fst (MovementSystem_update_projectile defaultMapBounds [scenario_box] None True 1
                       [scenario_target_at (221 / 50)] (scenario_projectile 1))) = Vector3 4 1 0
   \<and> fst (snd (MovementSystem_update_projectile defaultMapBounds [scenario_box] None True 1
                       [scenario_target_at (221 / 50)] (scenario_projectile 1)))
       = [scenario_target_at (221 / 50)]"
proof -
  let ?p = "scenario_projectile 1"
  let ?U = "\<lambda>x. MovementSystem_update_projectile defaultMapBounds [scenario_box] None True 1
                  [scenario_target_at x] ?p"
  have dt: "(0::real) < 1" by simp
  have nm: "\<not> markForRemoval ?p" and pos: "position ?p = Vector3 0 1 0"
    and dmg: "damage ?p = 15"
    by (simp_all add: scenario_projectile_def new_Projectile_def)
  have d: "deltaPosition_of 1 ?p = Vector3 10 0 0" using dt by (rule scenario_delta)
  have hs: "checkProjectileHitStaticObstacleRaycast (Vector3 0 1 0) (Vector3 10 0 0) [scenario_box]
       = Some (scenario_box, 2 / 5)"
    by (rule scenario_static_hit)
  have g: "\<not> markForRemoval (applyGravity 1 ?p)" "ownerId (applyGravity 1 ?p) = ''o''"
    by (simp_all add: applyGravity_frame scenario_projectile_def new_Projectile_def)
  have hp1: "checkProjectileHitRaycast (applyGravity 1 ?p) (Vector3 0 1 0) (Vector3 10 0 0)
               [scenario_target_at 2] = Some (0, ''torso'', 79 / 500)"
    using scenario_player_hit [OF g, of 2] by simp
  have hp2: "checkProjectileHitRaycast (applyGravity 1 ?p) (Vector3 0 1 0) (Vector3 10 0 0)
               [scenario_target_at (221 / 50)] = Some (0, ''torso'', 2 / 5)"
    using scenario_player_hit [OF g, of "221 / 50"] by simp
  note t1 = projectile_impact_resolution
    [OF dt nm pos [symmetric] d [symmetric] hs [symmetric] hp1 [symmetric],
     of defaultMapBounds None True]
  note t2 = projectile_impact_resolution
    [OF dt nm pos [symmetric] d [symmetric] hs [symmetric] hp2 [symmetric],
     of defaultMapBounds None True]
  from t1 have "chooseHit (Some (scenario_box, 2 / 5)) (Some (0, ''torso'', 79 / 500))
       = Some (if (2 / 5 :: real) \<le> 79 / 500 then StaticHit scenario_box (2 / 5)
               else PlayerHit 0 ''torso'' (79 / 500))"
    by blast
  then have c1: "chooseHit (Some (scenario_box, 2 / 5)) (Some (0, ''torso'', 79 / 500))
       = Some (PlayerHit 0 ''torso'' (79 / 500))"
    by simp
  from t2 have "chooseHit (Some (scenario_box, 2 / 5)) (Some (0, ''torso'', 2 / 5))
       = Some (if (2 / 5 :: real) \<le> 2 / 5 then StaticHit scenario_box (2 / 5)
               else PlayerHit 0 ''torso'' (2 / 5))"
    by blast
  then have c2: "chooseHit (Some (scenario_box, 2 / 5)) (Some (0, ''torso'', 2 / 5))
       = Some (StaticHit scenario_box (2 / 5))"
    by simp
  from t1 c1 have r1: "position (fst (?U 2))
         = Vector3_add (Vector3 0 1 0)
             (Vector3_multiplyScalar (Vector3 10 0 0) (hit_t (PlayerHit 0 ''torso'' (79 / 500))))"
    "velocity (fst (?U 2)) = Vector3 0 0 0" "markForRemoval (fst (?U 2))"
    "fst (snd (?U 2)) = applyHitDamage None ?p (PlayerHit 0 ''torso'' (79 / 500)) [scenario_target_at 2]"
    by blast+
  from t1 c1 have dm1: "applyHitDamage None ?p (PlayerHit 0 ''torso'' (79 / 500)) [scenario_target_at 2]
          = [scenario_target_at 2][0 := takeDamage None (damage ?p) (Some ''torso'')
                                           ([scenario_target_at 2] ! 0)]"
    by blast
  have al: "isAlive (scenario_target_at 2)" "health (scenario_target_at 2) = 100"
    "maxHealth (scenario_target_at 2) = 100"
    by (simp_all add: scenario_target_at_def new_Player_def)
  have mult: "damage_multiplier (Some ''torso'') = 1"
    by (simp add: damage_multiplier_def toLowerCase_def toLowerCase_char_def
        DAMAGE_MULTIPLIER_TORSO_def)
  have kh: "0 < damage ?p \<and> keeps_health (None :: (Player \<Rightarrow> Player) option)"
    by (simp add: keeps_health_def dmg)
  from t1 c1 kh have "health (takeDamage None (damage ?p) (Some ''torso'') ([scenario_target_at 2] ! 0))
        = max 0 (min (health ([scenario_target_at 2] ! 0)
                        - of_int (round (damage ?p * damage_multiplier (Some ''torso''))))
                     (maxHealth ([scenario_target_at 2] ! 0)))"
    by blast
  then have h1: "health (takeDamage None (damage ?p) (Some ''torso'') ([scenario_target_at 2] ! 0)) = 85"
    by (simp add: dmg mult al)
  have hl: "map health (fst (snd (?U 2))) = [85]"
    unfolding r1(4) dm1 using h1 by simp
  from t2 c2 have r2: "position (fst (?U (221 / 50)))
         = Vector3_add (Vector3 0 1 0)
             (Vector3_multiplyScalar (Vector3 10 0 0) (hit_t (StaticHit scenario_box (2 / 5))))"
    "fst (snd (?U (221 / 50)))
       = applyHitDamage None ?p (StaticHit scenario_box (2 / 5)) [scenario_target_at (221 / 50)]"
    by blast+
  from t2 have st: "applyHitDamage None ?p (StaticHit scenario_box (2 / 5)) [scenario_target_at (221 / 50)]
       = [scenario_target_at (221 / 50)]"
    by blast
  have p1: "position (fst (?U 2)) = Vector3 (79 / 50) 1 0"
    unfolding r1(1) by (simp add: Vector3_add_def Vector3_multiplyScalar_def)
  have p2: "position (fst (?U (221 / 50))) = Vector3 4 1 0"
    unfolding r2(1) by (simp add: Vector3_add_def Vector3_multiplyScalar_def)
  have s2: "fst (snd (?U (221 / 50))) = [scenario_target_at (221 / 50)]"
    unfolding r2(2) st ..
  from dt nm pos d hs hp1 c1 p1 r1(2,3) hl hp2 c2 p2 s2 show ?thesis by (intro conjI)
qed

end
